theory Spec2Isabelle
  imports Main
begin

section \<open>The editor host as SyncEverything sees it\<close>

text \<open>
  \<^verbatim>\<open>src/core/synceverything.ts\<close> talks to the editor through \<^verbatim>\<open>extensions.all\<close>,
  \<^verbatim>\<open>workspace.getConfiguration\<close>, \<^verbatim>\<open>window.show...Message\<close>, \<^verbatim>\<open>commands.executeCommand\<close>,
  \<^verbatim>\<open>workspace.fs.writeFile\<close>, \<^verbatim>\<open>readFile\<close>, \<^verbatim>\<open>context.globalState\<close> and the logger. The record
  \<open>host\<close> holds what those calls read; every call made is appended to \<open>trace\<close>, oldest first.
\<close>

record extension =
  ext_id :: string
  isBuiltin :: bool

datatype event =
    InformationMessage string
      \<comment> \<open>\<^verbatim>\<open>window.showInformationMessage(text, ...)\<close>\<close>
  | WarningMessage nat nat
      \<comment> \<open>\<^verbatim>\<open>window.showWarningMessage\<close>, modal, with items Yes / Show Details / Cancel; the text
          is fixed up to the two counts \<^verbatim>\<open>toInstall.length\<close> and \<^verbatim>\<open>toDelete.length\<close>\<close>
  | ProgressReport string nat nat
      \<comment> \<open>\<^verbatim>\<open>progress.report\<close>: message, \<^verbatim>\<open>completed\<close> after the increment, \<^verbatim>\<open>total\<close>\<close>
  | ExecuteCommand string "string option"
      \<comment> \<open>\<^verbatim>\<open>commands.executeCommand(command, arg?)\<close>\<close>
  | FsWriteFile string string
      \<comment> \<open>\<^verbatim>\<open>workspace.fs.writeFile(Uri.file(path), content)\<close>\<close>
  | LoggerInfo string
  | LoggerError string string bool
      \<comment> \<open>\<^verbatim>\<open>logger.error(message, origin, showToUser, ...)\<close>\<close>

record host =
  all_extensions :: "extension list"
    \<comment> \<open>\<^verbatim>\<open>extensions.all\<close>\<close>
  excludeExtensions :: "string list option"
    \<comment> \<open>setting \<^verbatim>\<open>synceverything.excludeExtensions\<close>, \<open>None\<close> when unset\<close>
  confirmBeforeSync :: "bool option"
    \<comment> \<open>setting \<^verbatim>\<open>synceverything.confirmBeforeSync\<close>, \<open>None\<close> when unset\<close>
  warningAnswer :: "string option"
    \<comment> \<open>the item the user picks at the modal warning, \<open>None\<close> when it is dismissed\<close>
  reloadAnswer :: "string option"
    \<comment> \<open>the item the user picks at the reload prompt\<close>
  failing :: "(string \<times> string) set"
    \<comment> \<open>the (command, argument) pairs on which \<^verbatim>\<open>executeCommand\<close> rejects\<close>
  globalState :: "string \<rightharpoonup> string"
    \<comment> \<open>\<^verbatim>\<open>context.globalState\<close>\<close>
  files :: "string \<rightharpoonup> string"
    \<comment> \<open>the file system: path to text\<close>
  readonly :: "string set"
    \<comment> \<open>the paths on which \<^verbatim>\<open>workspace.fs.writeFile\<close> rejects\<close>
  trace :: "event list"

definition emit :: "event \<Rightarrow> host \<Rightarrow> host" where
  "emit e w = w\<lparr>trace := trace w @ [e]\<rparr>"

definition newline :: string where
  "newline = [CHR 0x0A]"

fun join :: "string \<Rightarrow> string list \<Rightarrow> string" where
  "join sep [] = []"
| "join sep [x] = x"
| "join sep (x # y # ys) = x @ sep @ join sep (y # ys)"

section \<open>Extension reconciliation\<close>

text \<open>\<^verbatim>\<open>SyncEverything.getExtensions\<close>: the ids of the non-builtin extensions, minus the
  exclusion list (\<^verbatim>\<open>|| []\<close> when the setting is unset).\<close>

definition getExtensions :: "host \<Rightarrow> string list" where
  "getExtensions w =
     (let excludeList = (case excludeExtensions w of None \<Rightarrow> [] | Some l \<Rightarrow> l)
      in filter (\<lambda>i. i \<notin> set excludeList)
           (map ext_id (filter (\<lambda>ext. \<not> isBuiltin ext) (all_extensions w))))"

text \<open>The two filters at the head of \<^verbatim>\<open>installExtensions\<close>; \<^verbatim>\<open>localSet.has\<close> and
  \<^verbatim>\<open>remoteSet.has\<close> are membership in the lists the sets were built from.\<close>

definition toInstall :: "string list \<Rightarrow> string list \<Rightarrow> string list" where
  "toInstall localList remoteList = filter (\<lambda>i. i \<notin> set localList) remoteList"

definition toDelete :: "string list \<Rightarrow> string list \<Rightarrow> string list" where
  "toDelete localList remoteList = filter (\<lambda>i. i \<notin> set remoteList) localList"

definition uninstallExtension :: string where
  "uninstallExtension = ''workbench.extensions.uninstallExtension''"

definition installExtension :: string where
  "installExtension = ''workbench.extensions.installExtension''"

definition reloadWindow :: string where
  "reloadWindow = ''workbench.action.reloadWindow''"

definition origin_installExtensions :: string where
  "origin_installExtensions = ''SyncEverything.installExtensions''"

text \<open>The first loop of the progress callback (\<^verbatim>\<open>for (const id of toDelete)\<close>). The state of the
  loop is \<^verbatim>\<open>completed\<close>, \<^verbatim>\<open>needsReload\<close> and the host. A rejected command is caught inside the
  loop body, logged, and the loop goes on.\<close>

fun process_deletions :: "nat \<Rightarrow> string list \<Rightarrow> nat \<Rightarrow> bool \<Rightarrow> host \<Rightarrow> nat \<times> bool \<times> host" where
  "process_deletions totalN [] completed needsReload w = (completed, needsReload, w)"
| "process_deletions totalN (i # ids) completed needsReload w =
     (let w1 = emit (ProgressReport (''Uninstalling '' @ i @ ''...'') (Suc completed) totalN) w;
          w2 = emit (ExecuteCommand uninstallExtension (Some i)) w1
      in if (uninstallExtension, i) \<in> failing w2
         then process_deletions totalN ids (Suc completed) needsReload
                (emit (LoggerError (''Failed to uninstall '' @ i) origin_installExtensions False) w2)
         else process_deletions totalN ids (Suc completed) True
                (emit (LoggerInfo (''Uninstalled extension: '' @ i)) w2))"

text \<open>The second loop (\<^verbatim>\<open>for (const id of toInstall)\<close>).\<close>

fun process_installations :: "nat \<Rightarrow> string list \<Rightarrow> nat \<Rightarrow> bool \<Rightarrow> host \<Rightarrow> nat \<times> bool \<times> host" where
  "process_installations totalN [] completed needsReload w = (completed, needsReload, w)"
| "process_installations totalN (i # ids) completed needsReload w =
     (let w1 = emit (ProgressReport (''Installing '' @ i @ ''...'') (Suc completed) totalN) w;
          w2 = emit (ExecuteCommand installExtension (Some i)) w1
      in if (installExtension, i) \<in> failing w2
         then process_installations totalN ids (Suc completed) needsReload
                (emit (LoggerError (''Failed to install '' @ i) origin_installExtensions False) w2)
         else process_installations totalN ids (Suc completed) True
                (emit (LoggerInfo (''Installed extension: '' @ i)) w2))"

text \<open>The rest of \<^verbatim>\<open>installExtensions\<close> from \<^verbatim>\<open>let needsReload = false\<close> on: the progress
  callback (deletions, then installations) and the reload prompt.\<close>

definition run_batch :: "string list \<Rightarrow> string list \<Rightarrow> host \<Rightarrow> host" where
  "run_batch toInst toDel w =
     (let totalN = length toInst + length toDel;
          (completed, needsReload, w1) = process_deletions totalN toDel 0 False w;
          (completed', needsReload', w2) = process_installations totalN toInst completed needsReload w1
      in if needsReload'
         then (let w3 = emit (InformationMessage
                   ''Extension sync complete. Reload window to apply all changes?'') w2
               in if reloadAnswer w3 = Some ''Reload''
                  then emit (ExecuteCommand reloadWindow None) w3
                  else w3)
         else w2)"

text \<open>The text shown after "Show Details": the non-empty ones of the two itemized blocks,
  joined by an empty line.\<close>

definition details :: "string list \<Rightarrow> string list \<Rightarrow> string" where
  "details toInst toDel =
     join (newline @ newline)
       (filter (\<lambda>s. s \<noteq> [])
          [if length toInst > 0 then ''To Install:'' @ newline @ join newline toInst else [],
           if length toDel > 0 then ''To Remove:'' @ newline @ join newline toDel else []])"

text \<open>\<^verbatim>\<open>SyncEverything.installExtensions(remoteList)\<close>. \<^verbatim>\<open>get("confirmBeforeSync", true)\<close> is
  \<open>True\<close> when the setting is unset.\<close>

definition installExtensions :: "string list \<Rightarrow> host \<Rightarrow> host" where
  "installExtensions remoteList w =
     (let localList = getExtensions w;
          toInst = toInstall localList remoteList;
          toDel = toDelete localList remoteList
      in if length toInst = 0 \<and> length toDel = 0
         then emit (InformationMessage ''Extensions are already in sync'') w
         else if (case confirmBeforeSync w of None \<Rightarrow> True | Some b \<Rightarrow> b)
         then (let w1 = emit (WarningMessage (length toInst) (length toDel)) w;
                   action = warningAnswer w1
               in if action = Some ''Show Details''
                  then emit (InformationMessage (details toInst toDel)) w1
                  else if action \<noteq> Some ''Yes''
                  then w1
                  else run_batch toInst toDel w1)
         else run_batch toInst toDel w)"

text \<open>What a trace says about extension mutation.\<close>

fun is_uninstall :: "event \<Rightarrow> bool" where
  "is_uninstall (ExecuteCommand c a) = (c = uninstallExtension)"
| "is_uninstall _ = False"

fun is_install :: "event \<Rightarrow> bool" where
  "is_install (ExecuteCommand c a) = (c = installExtension)"
| "is_install _ = False"

definition mutations :: "event list \<Rightarrow> event list" where
  "mutations evs = filter (\<lambda>e. is_uninstall e \<or> is_install e) evs"

section \<open>Reading and writing the configuration files\<close>

datatype exn =
    Error string
      \<comment> \<open>\<^verbatim>\<open>new Error(message)\<close>\<close>
  | TypeError string
      \<comment> \<open>thrown by the runtime when \<^verbatim>\<open>undefined\<close> is used as a path or as the content of a
          buffer; the string says which argument it was\<close>
  | FileSystemError string
      \<comment> \<open>the rejection of \<^verbatim>\<open>workspace.fs.writeFile\<close> on the given path\<close>

text \<open>A configuration value is a string, or any other JSON value; the latter is kept as the text
  \<^verbatim>\<open>JSON.stringify(value, null, 2)\<close> gives for it.\<close>

datatype jsvalue = JsString string | JsStructured string

text \<open>A profile as it is passed around. \<^verbatim>\<open>settings\<close> and \<^verbatim>\<open>keybindings\<close> go to a parameter of
  type \<^verbatim>\<open>string | any\<close>; a profile parsed from the remote store can lack either, which is
  \<^verbatim>\<open>undefined\<close>, here \<open>None\<close>.\<close>

record profile =
  profileName :: string
  settings :: "jsvalue option"
  keybindings :: "jsvalue option"
  extensions :: "string list"

text \<open>\<^verbatim>\<open>Partial<IProfile>\<close> as \<^verbatim>\<open>getActiveProfile\<close> builds it: no \<^verbatim>\<open>profileName\<close>; a field whose value
  is \<^verbatim>\<open>undefined\<close> is \<open>None\<close>.\<close>

record partial_profile =
  settings_opt :: "jsvalue option"
  extensions_opt :: "string list option"
  keybindings_opt :: "jsvalue option"

definition template :: "string option \<Rightarrow> string" where
  \<comment> \<open>a value inside a template literal: \<^verbatim>\<open>`${undefined}`\<close> is the text \<^verbatim>\<open>undefined\<close>\<close>
  "template v = (case v of None \<Rightarrow> ''undefined'' | Some s \<Rightarrow> s)"

text \<open>\<^verbatim>\<open>SyncEverything.readConfigFile(t)\<close>, with \<^verbatim>\<open>JSON5.parse\<close> as the parameter \<open>parse\<close> (\<open>None\<close>
  where it throws). \<^verbatim>\<open>globalState.get\<close> does not throw, so the first \<^verbatim>\<open>catch\<close> is never entered;
  \<^verbatim>\<open>readFile\<close> rejects on an \<^verbatim>\<open>undefined\<close> path and on a path with no file. Every failure of the
  second \<^verbatim>\<open>try\<close> is logged and the function returns \<^verbatim>\<open>undefined\<close>.\<close>

definition readConfigFile :: "(string \<Rightarrow> jsvalue option) \<Rightarrow> string \<Rightarrow> host \<Rightarrow> jsvalue option \<times> host" where
  "readConfigFile parse t w =
     (let path = globalState w (t @ ''Path'');
          parsed = (case path of
                      None \<Rightarrow> None
                    | Some p \<Rightarrow> (case files w p of None \<Rightarrow> None | Some buffer \<Rightarrow> parse buffer))
      in case parsed of
           Some v \<Rightarrow> (Some v, w)
         | None \<Rightarrow>
             (None, emit (LoggerError (''Failed to read '' @ t @ '' file: '' @ template path)
                            ''SyncEverything.readConfigFile'' True) w))"

text \<open>\<^verbatim>\<open>SyncEverything.getActiveProfile()\<close>.\<close>

definition getActiveProfile :: "(string \<Rightarrow> jsvalue option) \<Rightarrow> host \<Rightarrow> partial_profile \<times> host" where
  "getActiveProfile parse w =
     (let (settings, w1) = readConfigFile parse ''settings'' w;
          (keybinds, w2) = readConfigFile parse ''keybindings'' w1;
          exts = getExtensions w2
      in (\<lparr>settings_opt = settings, extensions_opt = Some exts, keybindings_opt = keybinds\<rparr>, w2))"

text \<open>\<^verbatim>\<open>SyncEverything.writeConfigFile(path, data)\<close>. The content is the string itself, or
  \<^verbatim>\<open>JSON.stringify(data, null, 2)\<close>, which is \<^verbatim>\<open>undefined\<close> for \<^verbatim>\<open>undefined\<close>. The arguments of
  \<^verbatim>\<open>writeFile\<close> are built left to right: \<^verbatim>\<open>Uri.file(undefined)\<close> throws, then
  \<^verbatim>\<open>Buffer.from(undefined, "utf8")\<close> throws, in both cases before \<^verbatim>\<open>writeFile\<close> is called.
  Whatever is thrown inside the \<^verbatim>\<open>try\<close> is logged and thrown again.\<close>

definition content_of :: "jsvalue option \<Rightarrow> string option" where
  \<comment> \<open>\<^verbatim>\<open>typeof data === "string" ? data : JSON.stringify(data, null, 2)\<close>\<close>
  "content_of data =
     (case data of
        None \<Rightarrow> None
      | Some (JsString s) \<Rightarrow> Some s
      | Some (JsStructured s) \<Rightarrow> Some s)"

definition writeConfigFile :: "string option \<Rightarrow> jsvalue option \<Rightarrow> host \<Rightarrow> (exn + unit) \<times> host" where
  "writeConfigFile path data w =
     (let content = content_of data
      in case path of
           None \<Rightarrow>
             (Inl (TypeError ''path''),
              emit (LoggerError (''Failed to write settings file: '' @ template path)
                      ''SyncEverything.writeConfigFile'' True) w)
         | Some p \<Rightarrow>
             (case content of
                None \<Rightarrow>
                  (Inl (TypeError ''content''),
                   emit (LoggerError (''Failed to write settings file: '' @ template path)
                           ''SyncEverything.writeConfigFile'' True) w)
              | Some c \<Rightarrow>
                  (let w1 = emit (FsWriteFile p c) w
                   in if p \<in> readonly w1
                      then (Inl (FileSystemError p),
                            emit (LoggerError (''Failed to write settings file: '' @ template path)
                                    ''SyncEverything.writeConfigFile'' True) w1)
                      else (Inr (),
                            emit (LoggerInfo (''Configuration file updated: '' @ p))
                              (w1\<lparr>files := (files w1)(p \<mapsto> c)\<rparr>)))))"

text \<open>What a run of \<^verbatim>\<open>writeConfigFile\<close> shows of the call to \<^verbatim>\<open>writeFile\<close>: the call itself when
  both arguments can be built, nothing otherwise.\<close>

definition write_call :: "string option \<Rightarrow> jsvalue option \<Rightarrow> event list" where
  "write_call path data =
     (case (path, content_of data) of
        (Some p, Some c) \<Rightarrow> [FsWriteFile p c]
      | _ \<Rightarrow> [])"

text \<open>\<^verbatim>\<open>SyncEverything.updateLocalProfile(profile)\<close>: three awaited calls in a row, with no
  \<^verbatim>\<open>try\<close> around any of them.\<close>

definition updateLocalProfile :: "profile \<Rightarrow> host \<Rightarrow> (exn + unit) \<times> host" where
  "updateLocalProfile profile w =
     (let settingsPath = globalState w ''settingsPath''
      in case writeConfigFile settingsPath (settings profile) w of
           (Inl e, w1) \<Rightarrow> (Inl e, w1)
         | (Inr u, w1) \<Rightarrow>
             (let keybindingsPath = globalState w1 ''keybindingsPath''
              in case writeConfigFile keybindingsPath (keybindings profile) w1 of
                   (Inl e, w2) \<Rightarrow> (Inl e, w2)
                 | (Inr u', w2) \<Rightarrow> (Inr (), installExtensions (extensions profile) w2)))"

section \<open>The remote store\<close>

record gist =
  gist_id :: string
  gist_description :: string
  gist_files :: "(string \<times> string) list"
    \<comment> \<open>file name and content, in the record's order\<close>

datatype request =
    Get string
  | Patch string "(string \<times> string) list"
      \<comment> \<open>\<^verbatim>\<open>PATCH url\<close> with body \<^verbatim>\<open>{files: {name: {content}}}\<close>\<close>

datatype failure =
    AxiosResponse nat "string option" string
      \<comment> \<open>an axios error with a response: \<^verbatim>\<open>response.status\<close>, \<^verbatim>\<open>response.data?.message\<close> and the
          error's own \<^verbatim>\<open>message\<close>\<close>
  | AxiosNoResponse
      \<comment> \<open>an axios error with a request and no response\<close>
  | AxiosNeither
  | NotAxios

datatype log_entry =
    DebugObject string
  | ErrorEntry string string bool

record gist_world =
  gists :: "gist list"
    \<comment> \<open>the records of the collection, in the order the store lists them\<close>
  outage :: "failure option"
    \<comment> \<open>when set, every request fails with it (expired token, rate limit, no network)\<close>
  requests :: "request list"
    \<comment> \<open>every request sent, oldest first\<close>
  logged :: "log_entry list"

record gist_service =
  masterId :: "string option"

text \<open>The fields \<^verbatim>\<open>description\<close> and \<^verbatim>\<open>baseUrl\<close> of \<^verbatim>\<open>GistService\<close> keep their initial values:
  nothing assigns them. \<^verbatim>\<open>masterId\<close> is the only field that changes.\<close>

definition description :: string where
  "description = ''SyncEverything''"

definition baseUrl :: string where
  "baseUrl = ''https://api.github.com/gists''"

text \<open>Modelled from the spec: the remote store is not part of the repository; what it
  answers is taken from the wire format of the spec's section 6. \<^verbatim>\<open>GET /{collection}\<close> answers
  the array of records, \<^verbatim>\<open>GET /{collection}/{id}\<close> one record, \<^verbatim>\<open>PATCH /{collection}/{id}\<close> with
  body \<^verbatim>\<open>{files: {name: {content}}}\<close> the updated record, where \<^verbatim>\<open>content: ""\<close> removes that
  named file and any other content adds or overwrites it. A record that does not exist is
  answered with status 404. The definitions from \<open>route\<close> to \<open>axios_patch\<close> are this model;
  each of the three request functions is typed at the cast its caller applies to
  \<^verbatim>\<open>response.data\<close>, and appends the request to \<open>requests\<close>.\<close>

datatype endpoint = Collection | Item string | Elsewhere

definition route :: "string \<Rightarrow> endpoint" where
  "route url =
     (if url = baseUrl then Collection
      else if take (length baseUrl + 1) url = baseUrl @ ''/''
      then Item (drop (length baseUrl + 1) url)
      else Elsewhere)"

definition not_found :: failure where
  "not_found = AxiosResponse 404 (Some ''Not Found'') ''Request failed with status code 404''"

definition put_file :: "string \<Rightarrow> string \<Rightarrow> (string \<times> string) list \<Rightarrow> (string \<times> string) list" where
  "put_file name content fs =
     (if name \<in> fst ` set fs
      then map (\<lambda>(k, c). if k = name then (k, content) else (k, c)) fs
      else fs @ [(name, content)])"

definition remove_file :: "string \<Rightarrow> (string \<times> string) list \<Rightarrow> (string \<times> string) list" where
  "remove_file name fs = filter (\<lambda>(k, c). k \<noteq> name) fs"

fun patch_files :: "(string \<times> string) list \<Rightarrow> (string \<times> string) list \<Rightarrow> (string \<times> string) list" where
  "patch_files fs [] = fs"
| "patch_files fs ((name, content) # rest) =
     patch_files (if content = [] then remove_file name fs else put_file name content fs) rest"

definition sent :: "request \<Rightarrow> gist_world \<Rightarrow> gist_world" where
  "sent r g = g\<lparr>requests := requests g @ [r]\<rparr>"

definition axios_get_collection :: "string \<Rightarrow> gist_world \<Rightarrow> (failure + gist list) \<times> gist_world" where
  "axios_get_collection url g =
     (let g1 = sent (Get url) g
      in case outage g1 of
           Some f \<Rightarrow> (Inl f, g1)
         | None \<Rightarrow>
             (case route url of
                Collection \<Rightarrow> (Inr (gists g1), g1)
              | _ \<Rightarrow> (Inl not_found, g1)))"

definition axios_get_gist :: "string \<Rightarrow> gist_world \<Rightarrow> (failure + gist) \<times> gist_world" where
  "axios_get_gist url g =
     (let g1 = sent (Get url) g
      in case outage g1 of
           Some f \<Rightarrow> (Inl f, g1)
         | None \<Rightarrow>
             (case route url of
                Item i \<Rightarrow>
                  (case find (\<lambda>x. gist_id x = i) (gists g1) of
                     None \<Rightarrow> (Inl not_found, g1)
                   | Some x \<Rightarrow> (Inr x, g1))
              | _ \<Rightarrow> (Inl not_found, g1)))"

definition axios_patch ::
  "string \<Rightarrow> (string \<times> string) list \<Rightarrow> gist_world \<Rightarrow> (failure + gist) \<times> gist_world" where
  "axios_patch url body g =
     (let g1 = sent (Patch url body) g
      in case outage g1 of
           Some f \<Rightarrow> (Inl f, g1)
         | None \<Rightarrow>
             (case route url of
                Item i \<Rightarrow>
                  (case find (\<lambda>x. gist_id x = i) (gists g1) of
                     None \<Rightarrow> (Inl not_found, g1)
                   | Some x \<Rightarrow>
                       (let x' = x\<lparr>gist_files := patch_files (gist_files x) body\<rparr>
                        in (Inr x',
                            g1\<lparr>gists := map (\<lambda>y. if gist_id y = i
                                                 then y\<lparr>gist_files := patch_files (gist_files y) body\<rparr>
                                                 else y) (gists g1)\<rparr>)))
              | _ \<Rightarrow> (Inl not_found, g1)))"

section \<open>GistService\<close>

definition or_else :: "string option \<Rightarrow> string \<Rightarrow> string" where
  \<comment> \<open>\<^verbatim>\<open>a || b\<close> on a string that may be \<^verbatim>\<open>undefined\<close>: the empty string is falsy too\<close>
  "or_else a b = (case a of None \<Rightarrow> b | Some s \<Rightarrow> if s = [] then b else s)"

text \<open>\<^verbatim>\<open>GistService.handleGistError(error, operation, origin)\<close>: builds the message, logs, and
  throws \<^verbatim>\<open>new Error(message)\<close>; the model returns what is thrown.\<close>

definition handleGistError :: "failure \<Rightarrow> string \<Rightarrow> string \<Rightarrow> gist_world \<Rightarrow> exn \<times> gist_world" where
  "handleGistError error operation origin g =
     (let message =
        (case error of
           AxiosResponse status data_message axios_message \<Rightarrow>
             (if status = 401
              then ''Authentication failed during '' @ operation @ ''. Please check your GitHub token.''
              else if status = 403
              then ''Access forbidden during '' @ operation @ ''. Check your GitHub permissions.''
              else if status = 404
              then ''Resource not found during '' @ operation @ ''. The gist may have been deleted.''
              else if status = 422
              then ''Invalid data during '' @ operation @ '': ''
                     @ or_else data_message ''Unknown validation error''
              else if status = 429
              then ''Rate limit exceeded during '' @ operation @ ''. Please try again later.''
              else ''GitHub API error during '' @ operation @ '': ''
                     @ or_else data_message axios_message)
         | AxiosNoResponse \<Rightarrow>
             ''Network error during '' @ operation @ ''. Please check your internet connection.''
         | AxiosNeither \<Rightarrow> ''Failed to '' @ operation
         | NotAxios \<Rightarrow> ''Failed to '' @ operation)
      in (Error message,
          g\<lparr>logged := logged g @ [DebugObject origin, ErrorEntry message origin True]\<rparr>))"

text \<open>\<^verbatim>\<open>GistService.getCollection()\<close> and \<^verbatim>\<open>GistService.getGist(gistId)\<close>: any failure of the request
  goes through \<^verbatim>\<open>handleGistError\<close> and is thrown.\<close>

definition getCollection :: "gist_world \<Rightarrow> (exn + gist list) \<times> gist_world" where
  "getCollection g =
     (case axios_get_collection baseUrl g of
        (Inr data, g1) \<Rightarrow> (Inr data, g1)
      | (Inl err, g1) \<Rightarrow>
          (let (e, g2) = handleGistError err ''fetching all gists'' ''GistService.getCollection'' g1
           in (Inl e, g2)))"

definition getGist :: "string \<Rightarrow> gist_world \<Rightarrow> (exn + gist) \<times> gist_world" where
  "getGist gistId g =
     (case axios_get_gist (baseUrl @ ''/'' @ gistId) g of
        (Inr data, g1) \<Rightarrow> (Inr data, g1)
      | (Inl err, g1) \<Rightarrow>
          (let (e, g2) = handleGistError err (''fetch gist '' @ gistId) ''GistService.getGist'' g1
           in (Inl e, g2)))"

text \<open>\<^verbatim>\<open>GistService.getMaster()\<close>. \<^verbatim>\<open>if (this.masterId)\<close> is false for \<^verbatim>\<open>undefined\<close> and for the
  empty string. \<^verbatim>\<open>await this.getGist(...)\<close> has no \<^verbatim>\<open>try\<close> around it, so what \<^verbatim>\<open>getGist\<close> throws
  leaves \<^verbatim>\<open>getMaster\<close>; a record it returns is an object, hence truthy, and is returned. The
  result \<open>Inr None\<close> is \<^verbatim>\<open>undefined\<close>: no record has the description.\<close>

definition getMaster :: "gist_service \<Rightarrow> gist_world \<Rightarrow> (exn + gist option) \<times> gist_service \<times> gist_world" where
  "getMaster svc g =
     (let scan = (\<lambda>g0.
            case getCollection g0 of
              (Inl e, g1) \<Rightarrow> (Inl e, svc, g1)
            | (Inr collection, g1) \<Rightarrow>
                (case find (\<lambda>x. gist_description x = description) collection of
                   None \<Rightarrow> (Inr None, svc, g1)
                 | Some master \<Rightarrow> (Inr (Some master), svc\<lparr>masterId := Some (gist_id master)\<rparr>, g1)))
      in case masterId svc of
           None \<Rightarrow> scan g
         | Some i \<Rightarrow>
             if i = [] then scan g
             else (case getGist i g of
                     (Inl e, g1) \<Rightarrow> (Inl e, svc, g1)
                   | (Inr master, g1) \<Rightarrow> (Inr (Some master), svc, g1)))"

text \<open>\<^verbatim>\<open>GistService.createProfile(profile)\<close>, with \<^verbatim>\<open>JSON.stringify(profile, null, 2)\<close> as the
  parameter \<open>stringify\<close>. The URL is \<^verbatim>\<open>`${this.baseUrl}/${this.masterId}`\<close>.\<close>

definition createProfile ::
  "(profile \<Rightarrow> string) \<Rightarrow> profile \<Rightarrow> gist_service \<Rightarrow> gist_world \<Rightarrow> (exn + gist) \<times> gist_world" where
  "createProfile stringify profile svc g =
     (let gistData = [(profileName profile @ ''.json'', stringify profile)]
      in case axios_patch (baseUrl @ ''/'' @ template (masterId svc)) gistData g of
           (Inr data, g1) \<Rightarrow> (Inr data, g1)
         | (Inl err, g1) \<Rightarrow>
             (let (e, g2) = handleGistError err (''update/create profile '' @ profileName profile)
                              ''GistService.createProfile'' g1
              in (Inl e, g2)))"

text \<open>\<^verbatim>\<open>GistService.deleteProfile(profileName)\<close>.\<close>

definition deleteProfile :: "string \<Rightarrow> gist_service \<Rightarrow> gist_world \<Rightarrow> (exn + unit) \<times> gist_world" where
  "deleteProfile name svc g =
     (let gistData = [(name @ ''.json'', [])]
      in case axios_patch (baseUrl @ ''/'' @ template (masterId svc)) gistData g of
           (Inr data, g1) \<Rightarrow> (Inr (), g1)
         | (Inl err, g1) \<Rightarrow>
             (let (e, g2) = handleGistError err (''delete profile '' @ name)
                              ''GistService.deleteProfile'' g1
              in (Inl e, g2)))"

section \<open>Example inputs\<close>

definition user_extension :: "string \<Rightarrow> extension" where
  "user_extension i = \<lparr>ext_id = i, isBuiltin = False\<rparr>"

text \<open>The scenario of the spec: extensions A, B and C are installed; nothing is excluded and
  no confirmation is asked for.\<close>

definition host_abc :: host where
  "host_abc =
     \<lparr>all_extensions = [user_extension ''A'', user_extension ''B'', user_extension ''C''],
      excludeExtensions = None, confirmBeforeSync = Some False,
      warningAnswer = None, reloadAnswer = None, failing = {},
      globalState = Map.empty, files = Map.empty, readonly = {}, trace = []\<rparr>"

text \<open>The same host with confirmation left at its default and a user who picks "Cancel", and
  with confirmation switched on and a user who picks "Show Details".\<close>

definition host_cancel :: host where
  "host_cancel = host_abc\<lparr>confirmBeforeSync := None, warningAnswer := Some ''Cancel''\<rparr>"

definition host_details :: host where
  "host_details = host_abc\<lparr>confirmBeforeSync := Some True, warningAnswer := Some ''Show Details''\<rparr>"

text \<open>The same host with extension B on the exclusion list.\<close>

definition host_excluded :: host where
  "host_excluded = host_abc\<lparr>excludeExtensions := Some [''B'']\<rparr>"

text \<open>A host whose two paths are resolved; the keybindings file exists, the settings file does
  not. Then the same host with a settings file, respectively a keybindings file, that cannot
  be written.\<close>

definition host_paths :: host where
  "host_paths = host_abc
     \<lparr>globalState := [''settingsPath'' \<mapsto> ''/user/settings.json'',
                      ''keybindingsPath'' \<mapsto> ''/user/keybindings.json''],
      files := [''/user/keybindings.json'' \<mapsto> ''[]'']\<rparr>"

text \<open>The host with both files writable, confirmation at its default and a user who picks
  "Cancel".\<close>

definition host_paths_cancel :: host where
  "host_paths_cancel = host_paths\<lparr>confirmBeforeSync := None, warningAnswer := Some ''Cancel''\<rparr>"

definition host_readonly_settings :: host where
  "host_readonly_settings = host_paths\<lparr>readonly := {''/user/settings.json''}\<rparr>"

definition host_readonly_keybindings :: host where
  "host_readonly_keybindings = host_paths\<lparr>readonly := {''/user/keybindings.json''}\<rparr>"

definition sample_parse :: "string \<Rightarrow> jsvalue option" where
  "sample_parse buffer = (if buffer = [] then None else Some (JsStructured buffer))"

definition profile_work :: profile where
  "profile_work = \<lparr>profileName = ''Work'', settings = Some (JsStructured ''{}''),
                    keybindings = Some (JsStructured ''[]''), extensions = [''B'', ''C'', ''D'']\<rparr>"

text \<open>The same profile as a remote record without settings gives it.\<close>

definition profile_no_settings :: profile where
  "profile_no_settings = profile_work\<lparr>settings := None\<rparr>"

definition sample_json :: "profile \<Rightarrow> string" where
  "sample_json p = ''{ profileName: '' @ profileName p @ '' }''"

text \<open>A remote collection with the master record in second place.\<close>

definition master_record :: gist where
  "master_record = \<lparr>gist_id = ''m1'', gist_description = ''SyncEverything'',
      gist_files = [(''Origin.json'', ''{ profileName: Origin }''),
                    (''Work.json'', ''{ profileName: Work }'')]\<rparr>"

definition other_record :: gist where
  "other_record = \<lparr>gist_id = ''n7'', gist_description = ''notes'',
      gist_files = [(''todo.txt'', ''x'')]\<rparr>"

definition store :: gist_world where
  "store = \<lparr>gists = [other_record, master_record], outage = None, requests = [], logged = []\<rparr>"

section \<open>Facts about the loops\<close>

lemma trace_emit [simp]: "trace (emit e w) = trace w @ [e]"
  by (simp add: emit_def)

lemma emit_fields [simp]:
  "failing (emit e w) = failing w"
  "reloadAnswer (emit e w) = reloadAnswer w"
  "warningAnswer (emit e w) = warningAnswer w"
  "files (emit e w) = files w"
  "globalState (emit e w) = globalState w"
  "readonly (emit e w) = readonly w"
  "all_extensions (emit e w) = all_extensions w"
  "excludeExtensions (emit e w) = excludeExtensions w"
  "confirmBeforeSync (emit e w) = confirmBeforeSync w"
  by (simp_all add: emit_def)

lemma mutations_append [simp]: "mutations (xs @ ys) = mutations xs @ mutations ys"
  by (simp add: mutations_def)

lemma command_names_differ [simp]:
  "uninstallExtension \<noteq> installExtension"
  "installExtension \<noteq> uninstallExtension"
  "reloadWindow \<noteq> installExtension"
  "reloadWindow \<noteq> uninstallExtension"
  by (simp_all add: uninstallExtension_def installExtension_def reloadWindow_def)

lemma getExtensions_emit [simp]: "getExtensions (emit e w) = getExtensions w"
  by (simp add: getExtensions_def)

lemma getExtensions_answers [simp]:
  "getExtensions (w\<lparr>confirmBeforeSync := c\<rparr>) = getExtensions w"
  "getExtensions (w\<lparr>warningAnswer := a\<rparr>) = getExtensions w"
  by (simp_all add: getExtensions_def)

lemma process_deletions_events:
  "\<exists>evs. trace (snd (snd (process_deletions t ids c n w))) = trace w @ evs
         \<and> (\<forall>e\<in>set evs. \<not> is_install e)
         \<and> mutations evs = map (\<lambda>i. ExecuteCommand uninstallExtension (Some i)) ids"
proof (induction ids arbitrary: c n w)
  case Nil
  show ?case by (simp add: mutations_def)
next
  case (Cons i ids)
  define w2 where "w2 = emit (ExecuteCommand uninstallExtension (Some i))
      (emit (ProgressReport (''Uninstalling '' @ i @ ''...'') (Suc c) t) w)"
  define entry where "entry = (if (uninstallExtension, i) \<in> failing w
      then LoggerError (''Failed to uninstall '' @ i) origin_installExtensions False
      else LoggerInfo (''Uninstalled extension: '' @ i))"
  define n' where "n' = (if (uninstallExtension, i) \<in> failing w then n else True)"
  have step: "process_deletions t (i # ids) c n w = process_deletions t ids (Suc c) n' (emit entry w2)"
    by (simp add: w2_def entry_def n'_def Let_def)
  from Cons.IH [of "Suc c" n' "emit entry w2"]
  obtain evs where evs: "trace (snd (snd (process_deletions t ids (Suc c) n' (emit entry w2))))
        = trace (emit entry w2) @ evs"
      "\<forall>e\<in>set evs. \<not> is_install e"
      "mutations evs = map (\<lambda>i. ExecuteCommand uninstallExtension (Some i)) ids"
    by blast
  let ?head = "[ProgressReport (''Uninstalling '' @ i @ ''...'') (Suc c) t,
                ExecuteCommand uninstallExtension (Some i), entry]"
  have "trace (snd (snd (process_deletions t (i # ids) c n w))) = trace w @ ?head @ evs"
    unfolding step using evs(1) by (simp add: w2_def)
  moreover have "\<forall>e\<in>set (?head @ evs). \<not> is_install e"
    using evs(2) by (auto simp: entry_def)
  moreover have "mutations (?head @ evs) = map (\<lambda>i. ExecuteCommand uninstallExtension (Some i)) (i # ids)"
    using evs(3) by (simp add: mutations_def entry_def)
  ultimately show ?case by blast
qed

lemma process_installations_events:
  "\<exists>evs. trace (snd (snd (process_installations t ids c n w))) = trace w @ evs
         \<and> (\<forall>e\<in>set evs. \<not> is_uninstall e)
         \<and> mutations evs = map (\<lambda>i. ExecuteCommand installExtension (Some i)) ids"
proof (induction ids arbitrary: c n w)
  case Nil
  show ?case by (simp add: mutations_def)
next
  case (Cons i ids)
  define w2 where "w2 = emit (ExecuteCommand installExtension (Some i))
      (emit (ProgressReport (''Installing '' @ i @ ''...'') (Suc c) t) w)"
  define entry where "entry = (if (installExtension, i) \<in> failing w
      then LoggerError (''Failed to install '' @ i) origin_installExtensions False
      else LoggerInfo (''Installed extension: '' @ i))"
  define n' where "n' = (if (installExtension, i) \<in> failing w then n else True)"
  have step: "process_installations t (i # ids) c n w = process_installations t ids (Suc c) n' (emit entry w2)"
    by (simp add: w2_def entry_def n'_def Let_def)
  from Cons.IH [of "Suc c" n' "emit entry w2"]
  obtain evs where evs: "trace (snd (snd (process_installations t ids (Suc c) n' (emit entry w2))))
        = trace (emit entry w2) @ evs"
      "\<forall>e\<in>set evs. \<not> is_uninstall e"
      "mutations evs = map (\<lambda>i. ExecuteCommand installExtension (Some i)) ids"
    by blast
  let ?head = "[ProgressReport (''Installing '' @ i @ ''...'') (Suc c) t,
                ExecuteCommand installExtension (Some i), entry]"
  have "trace (snd (snd (process_installations t (i # ids) c n w))) = trace w @ ?head @ evs"
    unfolding step using evs(1) by (simp add: w2_def)
  moreover have "\<forall>e\<in>set (?head @ evs). \<not> is_uninstall e"
    using evs(2) by (auto simp: entry_def)
  moreover have "mutations (?head @ evs) = map (\<lambda>i. ExecuteCommand installExtension (Some i)) (i # ids)"
    using evs(3) by (simp add: mutations_def entry_def)
  ultimately show ?case by blast
qed

lemma run_batch_events:
  "\<exists>pre post. trace (run_batch toInst toDel w) = trace w @ pre @ post
     \<and> (\<forall>e\<in>set pre. \<not> is_install e)
     \<and> mutations pre = map (\<lambda>i. ExecuteCommand uninstallExtension (Some i)) toDel
     \<and> (\<forall>e\<in>set post. \<not> is_uninstall e)
     \<and> mutations post = map (\<lambda>i. ExecuteCommand installExtension (Some i)) toInst"
proof -
  let ?t = "length toInst + length toDel"
  obtain c n w1 where d: "process_deletions ?t toDel 0 False w = (c, n, w1)"
    by (metis prod_cases3)
  obtain c' n' w2 where i: "process_installations ?t toInst c n w1 = (c', n', w2)"
    by (metis prod_cases3)
  from process_deletions_events [of ?t toDel 0 False w] d
  obtain pre where pre: "trace w1 = trace w @ pre" "\<forall>e\<in>set pre. \<not> is_install e"
      "mutations pre = map (\<lambda>i. ExecuteCommand uninstallExtension (Some i)) toDel"
    by auto
  from process_installations_events [of ?t toInst c n w1] i
  obtain mid where mid: "trace w2 = trace w1 @ mid" "\<forall>e\<in>set mid. \<not> is_uninstall e"
      "mutations mid = map (\<lambda>i. ExecuteCommand installExtension (Some i)) toInst"
    by auto
  obtain tail where tail: "trace (run_batch toInst toDel w) = trace w2 @ tail"
      "\<forall>e\<in>set tail. \<not> is_uninstall e" "mutations tail = []"
  proof -
    have "\<exists>tail. trace (run_batch toInst toDel w) = trace w2 @ tail
        \<and> (\<forall>e\<in>set tail. \<not> is_uninstall e) \<and> mutations tail = []"
      by (simp add: run_batch_def Let_def d i mutations_def)
    then show ?thesis using that by blast
  qed
  have "trace (run_batch toInst toDel w) = trace w @ pre @ (mid @ tail)"
    by (simp add: tail(1) mid(1) pre(1))
  moreover have "\<forall>e\<in>set (mid @ tail). \<not> is_uninstall e"
    using mid(2) tail(2) by auto
  moreover have "mutations (mid @ tail) = map (\<lambda>i. ExecuteCommand installExtension (Some i)) toInst"
    using mid(3) tail(3) by simp
  ultimately show ?thesis using pre(2,3) by blast
qed

lemma getExtensions_host_abc: "getExtensions host_abc = [''A'', ''B'', ''C'']"
  by (simp add: getExtensions_def host_abc_def user_extension_def)

lemma install_in_mutations:
  "ExecuteCommand installExtension (Some i) \<in> set (mutations evs)
     \<longleftrightarrow> ExecuteCommand installExtension (Some i) \<in> set evs"
  by (simp add: mutations_def)

lemma uninstall_in_mutations:
  "ExecuteCommand uninstallExtension (Some i) \<in> set (mutations evs)
     \<longleftrightarrow> ExecuteCommand uninstallExtension (Some i) \<in> set evs"
  by (simp add: mutations_def)

lemma diff_empty_iff:
  "toInstall L R = [] \<and> toDelete L R = [] \<longleftrightarrow> set L = set R"
  by (auto simp: toInstall_def toDelete_def filter_empty_conv)

lemma installExtensions_events:
  "\<exists>evs. trace (installExtensions R w) = trace w @ evs
     \<and> mutations evs =
         (if confirmBeforeSync w = Some False \<or> warningAnswer w = Some ''Yes''
          then map (\<lambda>i. ExecuteCommand uninstallExtension (Some i)) (toDelete (getExtensions w) R)
               @ map (\<lambda>i. ExecuteCommand installExtension (Some i)) (toInstall (getExtensions w) R)
          else [])
     \<and> (set (getExtensions w) \<noteq> set R \<and> confirmBeforeSync w \<noteq> Some False \<longrightarrow>
          (\<exists>rest. evs = WarningMessage (length (toInstall (getExtensions w) R))
                                       (length (toDelete (getExtensions w) R)) # rest))"
proof -
  let ?I = "toInstall (getExtensions w) R" and ?D = "toDelete (getExtensions w) R"
  let ?confirm = "case confirmBeforeSync w of None \<Rightarrow> True | Some b \<Rightarrow> b"
  let ?w1 = "emit (WarningMessage (length ?I) (length ?D)) w"
  have confirm: "?confirm \<longleftrightarrow> confirmBeforeSync w \<noteq> Some False"
    by (cases "confirmBeforeSync w") auto
  consider (sync) "?I = [] \<and> ?D = []"
    | (stop) "\<not> (?I = [] \<and> ?D = [])" "?confirm" "warningAnswer w \<noteq> Some ''Yes''"
    | (yes) "\<not> (?I = [] \<and> ?D = [])" "?confirm" "warningAnswer w = Some ''Yes''"
    | (direct) "\<not> (?I = [] \<and> ?D = [])" "\<not> ?confirm"
    by blast
  then show ?thesis
  proof cases
    case sync
    then have "trace (installExtensions R w)
        = trace w @ [InformationMessage ''Extensions are already in sync'']"
      by (simp add: installExtensions_def)
    moreover have "set (getExtensions w) = set R"
      using sync diff_empty_iff by blast
    ultimately show ?thesis using sync
      by (intro exI [of _ "[InformationMessage ''Extensions are already in sync'']"])
         (simp add: mutations_def)
  next
    case stop
    then have "\<exists>tail. trace (installExtensions R w)
        = trace w @ WarningMessage (length ?I) (length ?D) # tail \<and> mutations tail = []"
      by (auto simp: installExtensions_def Let_def mutations_def)
    then obtain tail where t: "trace (installExtensions R w)
        = trace w @ WarningMessage (length ?I) (length ?D) # tail" "mutations tail = []"
      by blast
    have "mutations (WarningMessage (length ?I) (length ?D) # tail) = []"
      using t(2) by (simp add: mutations_def)
    then show ?thesis using t(1) stop(2,3) confirm
      by (intro exI [of _ "WarningMessage (length ?I) (length ?D) # tail"]) simp
  next
    case yes
    from run_batch_events [of ?I ?D ?w1]
    obtain pre post where b: "trace (run_batch ?I ?D ?w1) = trace ?w1 @ pre @ post"
        "mutations pre = map (\<lambda>i. ExecuteCommand uninstallExtension (Some i)) ?D"
        "mutations post = map (\<lambda>i. ExecuteCommand installExtension (Some i)) ?I"
      by blast
    have "installExtensions R w = run_batch ?I ?D ?w1"
      using yes by (auto simp: installExtensions_def Let_def)
    then have "trace (installExtensions R w)
        = trace w @ WarningMessage (length ?I) (length ?D) # (pre @ post)"
      using b(1) by simp
    moreover have "mutations (WarningMessage (length ?I) (length ?D) # (pre @ post))
        = map (\<lambda>i. ExecuteCommand uninstallExtension (Some i)) ?D
          @ map (\<lambda>i. ExecuteCommand installExtension (Some i)) ?I"
      using b(2,3) by (simp add: mutations_def)
    ultimately show ?thesis using yes(3)
      by (intro exI [of _ "WarningMessage (length ?I) (length ?D) # (pre @ post)"]) simp
  next
    case direct
    from run_batch_events [of ?I ?D w]
    obtain pre post where b: "trace (run_batch ?I ?D w) = trace w @ pre @ post"
        "mutations pre = map (\<lambda>i. ExecuteCommand uninstallExtension (Some i)) ?D"
        "mutations post = map (\<lambda>i. ExecuteCommand installExtension (Some i)) ?I"
      by blast
    have "installExtensions R w = run_batch ?I ?D w"
      using direct by (auto simp: installExtensions_def Let_def)
    then have "trace (installExtensions R w) = trace w @ (pre @ post)"
      using b(1) by simp
    moreover have "mutations (pre @ post)
        = map (\<lambda>i. ExecuteCommand uninstallExtension (Some i)) ?D
          @ map (\<lambda>i. ExecuteCommand installExtension (Some i)) ?I"
      using b(2,3) by simp
    moreover have "confirmBeforeSync w = Some False"
      using direct(2) confirm by blast
    ultimately show ?thesis
      by (intro exI [of _ "pre @ post"]) simp
  qed
qed

lemma getExtensions_written [simp]:
  "getExtensions (w\<lparr>files := f, trace := t\<rparr>) = getExtensions w"
  by (simp add: getExtensions_def)

lemma installExtensions_declined:
  assumes "\<not> (toInstall (getExtensions w) R = [] \<and> toDelete (getExtensions w) R = [])"
    and "confirmBeforeSync w \<noteq> Some False"
    and "warningAnswer w \<noteq> Some ''Yes''"
    and "warningAnswer w \<noteq> Some ''Show Details''"
  shows "installExtensions R w =
           emit (WarningMessage (length (toInstall (getExtensions w) R))
                                (length (toDelete (getExtensions w) R))) w"
proof -
  have c: "(case confirmBeforeSync w of None \<Rightarrow> True | Some b \<Rightarrow> b)"
    using assms(2) by (cases "confirmBeforeSync w") auto
  show ?thesis
    using assms(1,3,4) c by (auto simp: installExtensions_def Let_def)
qed

section \<open>Claims about extension reconciliation\<close>

text \<open>
  C4. With \<open>L\<close> the local list that \<^verbatim>\<open>getExtensions\<close> gives and \<open>R\<close> the remote list, the
  identifiers to install are those of \<open>R\<close> not in \<open>L\<close>, the identifiers to remove are those
  of \<open>L\<close> not in \<open>R\<close>, and the two are disjoint. \<^verbatim>\<open>installExtensions\<close> issues install
  commands only for identifiers of \<open>R - L\<close> and uninstall commands only for identifiers of
  \<open>L - R\<close>; when the batch runs (confirmation switched off, or answered "Yes") it issues them
  for exactly these. When the two sets differ and confirmation is required, the prompt shows
  the lengths of the two lists. When \<open>L\<close> and \<open>R\<close> hold the same identifiers, both lists are
  empty and all that happens is the message "Extensions are already in sync".
\<close>

theorem reconcile_set_difference:
  "\<exists>evs. trace (installExtensions R w) = trace w @ evs
     \<and> set (toInstall (getExtensions w) R) = set R - set (getExtensions w)
     \<and> set (toDelete (getExtensions w) R) = set (getExtensions w) - set R
     \<and> set (toInstall (getExtensions w) R) \<inter> set (toDelete (getExtensions w) R) = {}
     \<and> {i. ExecuteCommand installExtension (Some i) \<in> set evs} \<subseteq> set R - set (getExtensions w)
     \<and> {i. ExecuteCommand uninstallExtension (Some i) \<in> set evs} \<subseteq> set (getExtensions w) - set R
     \<and> (confirmBeforeSync w = Some False \<or> warningAnswer w = Some ''Yes'' \<longrightarrow>
          {i. ExecuteCommand installExtension (Some i) \<in> set evs} = set R - set (getExtensions w)
          \<and> {i. ExecuteCommand uninstallExtension (Some i) \<in> set evs} = set (getExtensions w) - set R)
     \<and> (set (getExtensions w) \<noteq> set R \<and> confirmBeforeSync w \<noteq> Some False \<longrightarrow>
          (\<exists>rest. evs = WarningMessage (length (toInstall (getExtensions w) R))
                                       (length (toDelete (getExtensions w) R)) # rest))
     \<and> (set (getExtensions w) = set R \<longrightarrow>
          toInstall (getExtensions w) R = [] \<and> toDelete (getExtensions w) R = []
          \<and> evs = [InformationMessage ''Extensions are already in sync''])"
proof -
  let ?L = "getExtensions w"
  let ?I = "toInstall ?L R" and ?D = "toDelete ?L R"
  let ?run = "confirmBeforeSync w = Some False \<or> warningAnswer w = Some ''Yes''"
  have a: "set ?I = set R - set ?L"
    by (auto simp: toInstall_def)
  have b: "set ?D = set ?L - set R"
    by (auto simp: toDelete_def)
  from installExtensions_events [of R w]
  obtain evs where evs: "trace (installExtensions R w) = trace w @ evs"
      "mutations evs =
         (if ?run
          then map (\<lambda>i. ExecuteCommand uninstallExtension (Some i)) ?D
               @ map (\<lambda>i. ExecuteCommand installExtension (Some i)) ?I
          else [])"
      "set ?L \<noteq> set R \<and> confirmBeforeSync w \<noteq> Some False \<longrightarrow>
          (\<exists>rest. evs = WarningMessage (length ?I) (length ?D) # rest)"
    by blast
  have mem_i: "ExecuteCommand installExtension (Some i) \<in> set evs \<longleftrightarrow> ?run \<and> i \<in> set ?I" for i
  proof -
    have "ExecuteCommand installExtension (Some i) \<in> set evs
        \<longleftrightarrow> ExecuteCommand installExtension (Some i) \<in> set (mutations evs)"
      by (simp add: install_in_mutations)
    also have "\<dots> \<longleftrightarrow> ?run \<and> i \<in> set ?I"
      unfolding evs(2) by auto
    finally show ?thesis .
  qed
  have mem_u: "ExecuteCommand uninstallExtension (Some i) \<in> set evs \<longleftrightarrow> ?run \<and> i \<in> set ?D" for i
  proof -
    have "ExecuteCommand uninstallExtension (Some i) \<in> set evs
        \<longleftrightarrow> ExecuteCommand uninstallExtension (Some i) \<in> set (mutations evs)"
      by (simp add: uninstall_in_mutations)
    also have "\<dots> \<longleftrightarrow> ?run \<and> i \<in> set ?D"
      unfolding evs(2) by auto
    finally show ?thesis .
  qed
  have inst: "{i. ExecuteCommand installExtension (Some i) \<in> set evs} = (if ?run then set ?I else {})"
    by (simp add: mem_i)
  have uninst: "{i. ExecuteCommand uninstallExtension (Some i) \<in> set evs} = (if ?run then set ?D else {})"
    by (simp add: mem_u)
  have sync: "?I = [] \<and> ?D = [] \<and> evs = [InformationMessage ''Extensions are already in sync'']"
    if eq: "set ?L = set R"
  proof -
    have e: "?I = [] \<and> ?D = []"
      using eq diff_empty_iff by blast
    then have "trace (installExtensions R w)
        = trace w @ [InformationMessage ''Extensions are already in sync'']"
      by (simp add: installExtensions_def)
    with evs(1) e show ?thesis by simp
  qed
  have sub: "{i. ExecuteCommand installExtension (Some i) \<in> set evs} \<subseteq> set R - set ?L"
      "{i. ExecuteCommand uninstallExtension (Some i) \<in> set evs} \<subseteq> set ?L - set R"
    using a b by (simp_all add: inst uninst)
  have run: "?run \<longrightarrow>
      {i. ExecuteCommand installExtension (Some i) \<in> set evs} = set R - set ?L
      \<and> {i. ExecuteCommand uninstallExtension (Some i) \<in> set evs} = set ?L - set R"
    using a b by (simp add: inst uninst)
  have disj: "set ?I \<inter> set ?D = {}"
    using a b by blast
  show ?thesis
    using evs(1,3) a b disj sub run sync
    by (intro exI [of _ evs]) blast
qed

theorem reconcile_set_difference_witness:
  "confirmBeforeSync host_abc = Some False
   \<and> {i. ExecuteCommand installExtension (Some i)
          \<in> set (trace (installExtensions [''B'', ''C'', ''D''] host_abc))} = {''D''}
   \<and> {i. ExecuteCommand uninstallExtension (Some i)
          \<in> set (trace (installExtensions [''B'', ''C'', ''D''] host_abc))} = {''A''}
   \<and> set (getExtensions host_cancel) \<noteq> set [''B'', ''C'', ''D'']
   \<and> confirmBeforeSync host_cancel \<noteq> Some False
   \<and> (\<exists>rest. trace (installExtensions [''B'', ''C'', ''D''] host_cancel) = WarningMessage 1 1 # rest)
   \<and> set (getExtensions host_abc) = set [''C'', ''A'', ''B'']
   \<and> trace (installExtensions [''C'', ''A'', ''B''] host_abc)
       = [InformationMessage ''Extensions are already in sync'']"
proof -
  have g: "getExtensions host_abc = [''A'', ''B'', ''C'']"
      "getExtensions host_cancel = [''A'', ''B'', ''C'']"
    by (simp_all add: host_cancel_def getExtensions_host_abc)
  have t: "trace host_abc = []" "trace host_cancel = []"
    by (simp_all add: host_cancel_def host_abc_def)
  have c: "confirmBeforeSync host_abc = Some False" "confirmBeforeSync host_cancel \<noteq> Some False"
    by (simp_all add: host_cancel_def host_abc_def)
  have s1: "set [''B'', ''C'', ''D''] - set [''A'', ''B'', ''C''] = {''D''}"
    and s2: "set [''A'', ''B'', ''C''] - set [''B'', ''C'', ''D''] = {''A''}"
    by (simp_all add: insert_Diff_if)
  have "''A'' \<in> set [''A'', ''B'', ''C'']" and "''A'' \<notin> set [''B'', ''C'', ''D'']"
    by simp_all
  then have s3: "set [''A'', ''B'', ''C''] \<noteq> set [''B'', ''C'', ''D'']"
    by metis
  have s4: "set [''A'', ''B'', ''C''] = set [''C'', ''A'', ''B'']"
    by (simp add: insert_commute)
  have l: "length (toInstall [''A'', ''B'', ''C''] [''B'', ''C'', ''D'']) = 1"
      "length (toDelete [''A'', ''B'', ''C''] [''B'', ''C'', ''D'']) = 1"
    by (simp_all add: toInstall_def toDelete_def)
  from reconcile_set_difference [of "[''B'', ''C'', ''D'']" host_abc]
  obtain evs where e1: "trace (installExtensions [''B'', ''C'', ''D''] host_abc) = trace host_abc @ evs"
      "confirmBeforeSync host_abc = Some False \<or> warningAnswer host_abc = Some ''Yes'' \<longrightarrow>
         {i. ExecuteCommand installExtension (Some i) \<in> set evs}
           = set [''B'', ''C'', ''D''] - set (getExtensions host_abc)
         \<and> {i. ExecuteCommand uninstallExtension (Some i) \<in> set evs}
           = set (getExtensions host_abc) - set [''B'', ''C'', ''D'']"
    by blast
  have run: "{i. ExecuteCommand installExtension (Some i)
          \<in> set (trace (installExtensions [''B'', ''C'', ''D''] host_abc))} = {''D''}
      \<and> {i. ExecuteCommand uninstallExtension (Some i)
          \<in> set (trace (installExtensions [''B'', ''C'', ''D''] host_abc))} = {''A''}"
    using e1 c(1) by (simp add: t g insert_Diff_if)
  from reconcile_set_difference [of "[''B'', ''C'', ''D'']" host_cancel]
  obtain evs' where e2: "trace (installExtensions [''B'', ''C'', ''D''] host_cancel) = trace host_cancel @ evs'"
      "set (getExtensions host_cancel) \<noteq> set [''B'', ''C'', ''D'']
         \<and> confirmBeforeSync host_cancel \<noteq> Some False \<longrightarrow>
       (\<exists>rest. evs' = WarningMessage (length (toInstall (getExtensions host_cancel) [''B'', ''C'', ''D'']))
                          (length (toDelete (getExtensions host_cancel) [''B'', ''C'', ''D''])) # rest)"
    by blast
  have prompt: "\<exists>rest. trace (installExtensions [''B'', ''C'', ''D''] host_cancel) = WarningMessage 1 1 # rest"
    using e2 c(2) s3 by (simp add: t g l)
  from reconcile_set_difference [of "[''C'', ''A'', ''B'']" host_abc]
  obtain evs'' where e3: "trace (installExtensions [''C'', ''A'', ''B''] host_abc) = trace host_abc @ evs''"
      "set (getExtensions host_abc) = set [''C'', ''A'', ''B''] \<longrightarrow>
         evs'' = [InformationMessage ''Extensions are already in sync'']"
    by blast
  have sync: "trace (installExtensions [''C'', ''A'', ''B''] host_abc)
       = [InformationMessage ''Extensions are already in sync'']"
    using e3 s4 by (simp add: t g)
  have "set (getExtensions host_cancel) \<noteq> set [''B'', ''C'', ''D'']"
    unfolding g by (rule s3)
  moreover have "set (getExtensions host_abc) = set [''C'', ''A'', ''B'']"
    unfolding g by (rule s4)
  ultimately show ?thesis
    using run prompt sync c by blast
qed

text \<open>
  C5. In every run of \<^verbatim>\<open>installExtensions\<close> the calls it makes split into a first part with no
  install command and a second part with no uninstall command: every uninstall is issued
  before any install. When the batch is executed (confirmation switched off, or answered
  "Yes"), the first part issues the uninstalls of exactly the identifiers to remove, in
  order, and the second part the installs of exactly the identifiers to install.
\<close>

theorem removals_before_installs:
  "\<exists>pre post. trace (installExtensions R w) = trace w @ pre @ post
     \<and> (\<forall>e\<in>set pre. \<not> is_install e)
     \<and> (\<forall>e\<in>set post. \<not> is_uninstall e)
     \<and> (confirmBeforeSync w = Some False \<or> warningAnswer w = Some ''Yes'' \<longrightarrow>
          mutations pre = map (\<lambda>i. ExecuteCommand uninstallExtension (Some i))
                            (toDelete (getExtensions w) R)
          \<and> mutations post = map (\<lambda>i. ExecuteCommand installExtension (Some i))
                            (toInstall (getExtensions w) R))"
proof -
  let ?I = "toInstall (getExtensions w) R" and ?D = "toDelete (getExtensions w) R"
  let ?confirm = "case confirmBeforeSync w of None \<Rightarrow> True | Some b \<Rightarrow> b"
  let ?w1 = "emit (WarningMessage (length ?I) (length ?D)) w"
  consider (sync) "?I = [] \<and> ?D = []"
    | (stop) "\<not> (?I = [] \<and> ?D = [])" "?confirm" "warningAnswer w \<noteq> Some ''Yes''"
    | (yes) "\<not> (?I = [] \<and> ?D = [])" "?confirm" "warningAnswer w = Some ''Yes''"
    | (direct) "\<not> (?I = [] \<and> ?D = [])" "\<not> ?confirm"
    by blast
  then show ?thesis
  proof cases
    case sync
    then have "trace (installExtensions R w)
        = trace w @ [InformationMessage ''Extensions are already in sync''] @ []"
      by (simp add: installExtensions_def)
    moreover have "mutations [InformationMessage ''Extensions are already in sync''] = []"
      by (simp add: mutations_def)
    ultimately show ?thesis using sync
      by (intro exI [of _ "[InformationMessage ''Extensions are already in sync'']"] exI [of _ "[]"])
         (simp add: mutations_def)
  next
    case stop
    then have nope: "\<not> (confirmBeforeSync w = Some False \<or> warningAnswer w = Some ''Yes'')"
      by (auto split: option.splits)
    have "\<exists>pre. trace (installExtensions R w) = trace w @ pre @ [] \<and> (\<forall>e\<in>set pre. \<not> is_install e)"
      using stop by (simp add: installExtensions_def Let_def)
    then obtain pre where p: "trace (installExtensions R w) = trace w @ pre @ []"
        "\<forall>e\<in>set pre. \<not> is_install e"
      by blast
    show ?thesis
      using p nope by (intro exI [of _ pre] exI [of _ "[]"]) simp
  next
    case yes
    from run_batch_events [of ?I ?D ?w1]
    obtain pre post where b: "trace (run_batch ?I ?D ?w1) = trace ?w1 @ pre @ post"
        "\<forall>e\<in>set pre. \<not> is_install e"
        "mutations pre = map (\<lambda>i. ExecuteCommand uninstallExtension (Some i)) ?D"
        "\<forall>e\<in>set post. \<not> is_uninstall e"
        "mutations post = map (\<lambda>i. ExecuteCommand installExtension (Some i)) ?I"
      by blast
    have "installExtensions R w = run_batch ?I ?D ?w1"
      using yes by (auto simp: installExtensions_def Let_def)
    then have "trace (installExtensions R w)
        = trace w @ (WarningMessage (length ?I) (length ?D) # pre) @ post"
      using b(1) by simp
    moreover have "\<forall>e\<in>set (WarningMessage (length ?I) (length ?D) # pre). \<not> is_install e"
      using b(2) by simp
    moreover have "mutations (WarningMessage (length ?I) (length ?D) # pre)
        = map (\<lambda>i. ExecuteCommand uninstallExtension (Some i)) ?D"
      using b(3) by (simp add: mutations_def)
    ultimately show ?thesis using b(4,5)
      by (intro exI [of _ "WarningMessage (length ?I) (length ?D) # pre"] exI [of _ post]) simp
  next
    case direct
    from run_batch_events [of ?I ?D w]
    obtain pre post where b: "trace (run_batch ?I ?D w) = trace w @ pre @ post"
        "\<forall>e\<in>set pre. \<not> is_install e"
        "mutations pre = map (\<lambda>i. ExecuteCommand uninstallExtension (Some i)) ?D"
        "\<forall>e\<in>set post. \<not> is_uninstall e"
        "mutations post = map (\<lambda>i. ExecuteCommand installExtension (Some i)) ?I"
      by blast
    have "installExtensions R w = run_batch ?I ?D w"
      using direct by (auto simp: installExtensions_def Let_def)
    with b show ?thesis
      by (intro exI [of _ pre] exI [of _ post]) simp
  qed
qed


theorem removals_before_installs_witness:
  "confirmBeforeSync host_abc = Some False
   \<and> (\<exists>pre post.
        trace (installExtensions [''B'', ''C'', ''D''] host_abc) = trace host_abc @ pre @ post
        \<and> mutations pre = [ExecuteCommand uninstallExtension (Some ''A'')]
        \<and> mutations post = [ExecuteCommand installExtension (Some ''D'')])"
proof -
  have c: "confirmBeforeSync host_abc = Some False"
    by (simp add: host_abc_def)
  have d: "toDelete (getExtensions host_abc) [''B'', ''C'', ''D''] = [''A'']"
    by (simp add: getExtensions_host_abc toDelete_def)
  have i: "toInstall (getExtensions host_abc) [''B'', ''C'', ''D''] = [''D'']"
    by (simp add: getExtensions_host_abc toInstall_def)
  from removals_before_installs [of "[''B'', ''C'', ''D'']" host_abc]
  obtain pre post where
    "trace (installExtensions [''B'', ''C'', ''D''] host_abc) = trace host_abc @ pre @ post"
    "mutations pre = [ExecuteCommand uninstallExtension (Some ''A'')]"
    "mutations post = [ExecuteCommand installExtension (Some ''D'')]"
    using c d i by auto
  with c show ?thesis by blast
qed

text \<open>
  C10. When the two lists differ, confirmation is required and the user picks "Show Details",
  \<^verbatim>\<open>installExtensions\<close> shows the prompt, then the itemized lists, and returns: it issues no
  install and no uninstall command, and nothing leads back to the prompt.
\<close>

theorem show_details_abandons_batch:
  assumes "\<not> (toInstall (getExtensions w) R = [] \<and> toDelete (getExtensions w) R = [])"
    and "confirmBeforeSync w \<noteq> Some False"
    and "warningAnswer w = Some ''Show Details''"
  shows "installExtensions R w =
           emit (InformationMessage (details (toInstall (getExtensions w) R)
                                             (toDelete (getExtensions w) R)))
             (emit (WarningMessage (length (toInstall (getExtensions w) R))
                                   (length (toDelete (getExtensions w) R))) w)
         \<and> mutations (trace (installExtensions R w)) = mutations (trace w)"
proof -
  have c: "(case confirmBeforeSync w of None \<Rightarrow> True | Some b \<Rightarrow> b)"
    using assms(2) by (cases "confirmBeforeSync w") auto
  have "installExtensions R w =
           emit (InformationMessage (details (toInstall (getExtensions w) R)
                                             (toDelete (getExtensions w) R)))
             (emit (WarningMessage (length (toInstall (getExtensions w) R))
                                   (length (toDelete (getExtensions w) R))) w)"
    using assms(1,3) c by (auto simp: installExtensions_def Let_def)
  then show ?thesis by (simp add: mutations_def)
qed

theorem show_details_abandons_batch_witness:
  "toInstall (getExtensions host_details) [''B'', ''C'', ''D''] = [''D'']
   \<and> toDelete (getExtensions host_details) [''B'', ''C'', ''D''] = [''A'']
   \<and> confirmBeforeSync host_details = Some True
   \<and> warningAnswer host_details = Some ''Show Details''
   \<and> trace (installExtensions [''B'', ''C'', ''D''] host_details)
       = [WarningMessage 1 1,
          InformationMessage (''To Install:'' @ newline @ ''D'' @ newline @ newline
                              @ ''To Remove:'' @ newline @ ''A'')]"
proof -
  have g: "getExtensions host_details = [''A'', ''B'', ''C'']"
    by (simp add: host_details_def getExtensions_host_abc)
  have i: "toInstall (getExtensions host_details) [''B'', ''C'', ''D''] = [''D'']"
    and d: "toDelete (getExtensions host_details) [''B'', ''C'', ''D''] = [''A'']"
    by (simp_all add: g toInstall_def toDelete_def)
  have c: "confirmBeforeSync host_details = Some True"
    and a: "warningAnswer host_details = Some ''Show Details''"
    and t: "trace host_details = []"
    by (simp_all add: host_details_def host_abc_def)
  from show_details_abandons_batch [of host_details "[''B'', ''C'', ''D'']"] i d c a t
  show ?thesis by (simp add: details_def newline_def)
qed

text \<open>
  The exclusion list and the diff. \<^verbatim>\<open>getExtensions\<close> drops the excluded identifiers from the
  local list, so none is ever removed; the remote list is diffed as it comes, so an excluded
  identifier that it names is always among the identifiers to install.
\<close>

lemma excluded_never_removed:
  "excludeExtensions w = Some xs \<Longrightarrow> x \<in> set xs \<Longrightarrow>
     x \<notin> set (getExtensions w) \<and> x \<notin> set (toDelete (getExtensions w) R)"
  by (simp add: getExtensions_def toDelete_def)

lemma excluded_in_remote_list_is_installed:
  "excludeExtensions w = Some xs \<Longrightarrow> x \<in> set xs \<Longrightarrow> x \<in> set R \<Longrightarrow>
     x \<in> set (toInstall (getExtensions w) R)"
  by (simp add: getExtensions_def toInstall_def)

text \<open>
  C6. The claim is that an excluded identifier never appears among the identifiers to install
  or to remove, whether it occurs locally or in the remote list. Here A, B and C are
  installed, B is excluded and the remote profile lists A, B and C: the local and the remote
  set are equal, and yet B is among the identifiers to install and an install command is
  issued for it.
\<close>

theorem excluded_extension_is_installed:
  "excludeExtensions host_excluded = Some [''B'']
   \<and> getExtensions host_excluded = [''A'', ''C'']
   \<and> toInstall (getExtensions host_excluded) [''A'', ''B'', ''C''] = [''B'']
   \<and> trace (installExtensions [''A'', ''B'', ''C''] host_excluded)
       = [ProgressReport ''Installing B...'' 1 1,
          ExecuteCommand installExtension (Some ''B''),
          LoggerInfo ''Installed extension: B'',
          InformationMessage ''Extension sync complete. Reload window to apply all changes?'']"
proof -
  have e: "excludeExtensions host_excluded = Some [''B'']"
    by (simp add: host_excluded_def)
  have g: "getExtensions host_excluded = [''A'', ''C'']"
    by (simp add: getExtensions_def host_excluded_def host_abc_def user_extension_def)
  have i: "toInstall (getExtensions host_excluded) [''A'', ''B'', ''C''] = [''B'']"
    and d: "toDelete (getExtensions host_excluded) [''A'', ''B'', ''C''] = []"
    by (simp_all add: g toInstall_def toDelete_def)
  have t: "trace (installExtensions [''A'', ''B'', ''C''] host_excluded)
       = [ProgressReport ''Installing B...'' 1 1,
          ExecuteCommand installExtension (Some ''B''),
          LoggerInfo ''Installed extension: B'',
          InformationMessage ''Extension sync complete. Reload window to apply all changes?'']"
    by (simp add: installExtensions_def i d run_batch_def Let_def)
       (simp add: host_excluded_def host_abc_def installExtension_def)
  from e g i t show ?thesis by simp
qed

section \<open>Claims about the configuration files\<close>

lemma readConfigFile_value_emit [simp]:
  "fst (readConfigFile parse t (emit e w)) = fst (readConfigFile parse t w)"
  by (simp add: readConfigFile_def Let_def split: option.splits)

lemma readConfigFile_fails_iff:
  "fst (readConfigFile parse t w) = None \<longleftrightarrow>
     (case globalState w (t @ ''Path'') of
        None \<Rightarrow> True
      | Some p \<Rightarrow> (case files w p of None \<Rightarrow> True | Some buffer \<Rightarrow> parse buffer = None))"
  by (simp add: readConfigFile_def Let_def split: option.splits)

lemma readConfigFile_failure:
  "fst (readConfigFile parse t w) = None \<Longrightarrow>
   readConfigFile parse t w =
     (None, emit (LoggerError (''Failed to read '' @ t @ '' file: '' @ template (globalState w (t @ ''Path'')))
                    ''SyncEverything.readConfigFile'' True) w)"
  by (simp add: readConfigFile_def Let_def split: option.splits)

lemma readConfigFile_success:
  "fst (readConfigFile parse t w) = Some v \<Longrightarrow> readConfigFile parse t w = (Some v, w)"
  by (auto simp: readConfigFile_def Let_def split: option.splits)

text \<open>
  C9. When reading the settings file fails (\<^verbatim>\<open>readConfigFile\<close> returns \<^verbatim>\<open>undefined\<close> for it) and
  the keybindings file is read, \<^verbatim>\<open>getActiveProfile\<close> returns a profile whose settings are
  absent and whose keybindings and extensions are there; the failure is logged, with the
  user notified, and nothing is thrown.
\<close>

theorem snapshot_with_unreadable_settings:
  assumes "fst (readConfigFile parse ''settings'' w) = None"
    and "fst (readConfigFile parse ''keybindings'' w) = Some k"
  shows "getActiveProfile parse w =
           (\<lparr>settings_opt = None, extensions_opt = Some (getExtensions w), keybindings_opt = Some k\<rparr>,
            emit (LoggerError (''Failed to read settings file: '' @ template (globalState w ''settingsPath''))
                    ''SyncEverything.readConfigFile'' True) w)"
proof -
  define w1 where "w1 = emit (LoggerError (''Failed to read settings file: '' @ template (globalState w ''settingsPath''))
                    ''SyncEverything.readConfigFile'' True) w"
  have s: "readConfigFile parse ''settings'' w = (None, w1)"
    using readConfigFile_failure [OF assms(1)] by (simp add: w1_def)
  have "fst (readConfigFile parse ''keybindings'' w1) = Some k"
    using assms(2) by (simp add: w1_def)
  then have k: "readConfigFile parse ''keybindings'' w1 = (Some k, w1)"
    by (rule readConfigFile_success)
  have g: "getExtensions w1 = getExtensions w"
    by (simp add: w1_def)
  have "getActiveProfile parse w =
      (\<lparr>settings_opt = None, extensions_opt = Some (getExtensions w), keybindings_opt = Some k\<rparr>, w1)"
    unfolding getActiveProfile_def s by (simp add: k g)
  then show ?thesis by (simp add: w1_def)
qed

theorem snapshot_with_unreadable_settings_witness:
  "fst (readConfigFile sample_parse ''settings'' host_paths) = None
   \<and> fst (readConfigFile sample_parse ''keybindings'' host_paths) = Some (JsStructured ''[]'')
   \<and> fst (getActiveProfile sample_parse host_paths) =
       \<lparr>settings_opt = None, extensions_opt = Some [''A'', ''B'', ''C''],
        keybindings_opt = Some (JsStructured ''[]'')\<rparr>
   \<and> trace (snd (getActiveProfile sample_parse host_paths)) =
       [LoggerError ''Failed to read settings file: /user/settings.json''
          ''SyncEverything.readConfigFile'' True]"
proof -
  have s: "fst (readConfigFile sample_parse ''settings'' host_paths) = None"
    by (simp add: readConfigFile_def host_paths_def Let_def)
  have k: "fst (readConfigFile sample_parse ''keybindings'' host_paths) = Some (JsStructured ''[]'')"
    by (simp add: readConfigFile_def host_paths_def Let_def sample_parse_def)
  have g: "getExtensions host_paths = [''A'', ''B'', ''C'']"
    by (simp add: getExtensions_def host_paths_def host_abc_def user_extension_def)
  have p: "globalState host_paths ''settingsPath'' = Some ''/user/settings.json''"
    and t: "trace host_paths = []"
    by (simp_all add: host_paths_def host_abc_def)
  from snapshot_with_unreadable_settings [OF s k] s k g p t
  show ?thesis by (simp add: template_def)
qed

text \<open>
  What makes a write fail, what a failed write leaves behind, and what a successful one does.
\<close>

lemma writeConfigFile_fails_iff:
  "(\<exists>e. fst (writeConfigFile path data w) = Inl e) \<longleftrightarrow>
     (case path of None \<Rightarrow> True | Some p \<Rightarrow> content_of data = None \<or> p \<in> readonly w)"
  by (simp add: writeConfigFile_def Let_def split: option.splits)

lemma writeConfigFile_failure:
  assumes "fst (writeConfigFile path data w) = Inl e"
  shows "files (snd (writeConfigFile path data w)) = files w"
    and "trace (snd (writeConfigFile path data w)) =
           trace w @ write_call path data
             @ [LoggerError (''Failed to write settings file: '' @ template path)
                  ''SyncEverything.writeConfigFile'' True]"
  using assms
  by (auto simp: writeConfigFile_def write_call_def Let_def split: option.splits if_splits)

lemma writeConfigFile_success:
  assumes "path = Some sp" and "content_of data = Some c" and "sp \<notin> readonly w"
  shows "writeConfigFile path data w =
           (Inr (), w\<lparr>files := (files w)(sp \<mapsto> c),
                      trace := trace w @ [FsWriteFile sp c,
                                          LoggerInfo (''Configuration file updated: '' @ sp)]\<rparr>)"
  using assms by (simp add: writeConfigFile_def Let_def emit_def)

lemma writeConfigFile_outcome_stable:
  "readonly w' = readonly w \<Longrightarrow>
     fst (writeConfigFile path data w') = fst (writeConfigFile path data w)"
  by (simp add: writeConfigFile_def Let_def split: option.splits)

lemma updateLocalProfile_all_written:
  assumes "globalState w ''settingsPath'' = Some sp" and "content_of (settings p) = Some cs"
    and "sp \<notin> readonly w"
    and "globalState w ''keybindingsPath'' = Some kp" and "content_of (keybindings p) = Some ck"
    and "kp \<notin> readonly w"
  shows "updateLocalProfile p w =
           (Inr (), installExtensions (extensions p)
              (w\<lparr>files := (files w)(sp \<mapsto> cs, kp \<mapsto> ck),
                 trace := trace w @ [FsWriteFile sp cs,
                                     LoggerInfo (''Configuration file updated: '' @ sp),
                                     FsWriteFile kp ck,
                                     LoggerInfo (''Configuration file updated: '' @ kp)]\<rparr>))"
proof -
  define w1 where "w1 = w\<lparr>files := (files w)(sp \<mapsto> cs),
      trace := trace w @ [FsWriteFile sp cs, LoggerInfo (''Configuration file updated: '' @ sp)]\<rparr>"
  have first: "writeConfigFile (globalState w ''settingsPath'') (settings p) w = (Inr (), w1)"
    unfolding w1_def using assms(1,2,3) by (rule writeConfigFile_success)
  have kept: "globalState w1 ''keybindingsPath'' = Some kp" "kp \<notin> readonly w1"
    using assms(4,6) by (simp_all add: w1_def)
  have second: "writeConfigFile (globalState w1 ''keybindingsPath'') (keybindings p) w1 =
      (Inr (), w1\<lparr>files := (files w1)(kp \<mapsto> ck),
                  trace := trace w1 @ [FsWriteFile kp ck,
                                       LoggerInfo (''Configuration file updated: '' @ kp)]\<rparr>)"
    using kept(1) assms(5) kept(2) by (rule writeConfigFile_success)
  show ?thesis
    by (simp add: updateLocalProfile_def first second) (simp add: w1_def)
qed

lemma example_paths:
  "globalState host_paths ''settingsPath'' = Some ''/user/settings.json''"
  "globalState host_paths ''keybindingsPath'' = Some ''/user/keybindings.json''"
  "readonly host_paths = {}" "trace host_paths = []"
  "files host_paths ''/user/settings.json'' = None"
  "getExtensions host_paths = [''A'', ''B'', ''C'']"
  by (simp_all add: host_paths_def host_abc_def getExtensions_def user_extension_def)

lemma example_contents:
  "content_of (settings profile_work) = Some ''{}''"
  "content_of (keybindings profile_work) = Some ''[]''"
  "extensions profile_work = [''B'', ''C'', ''D'']"
  "content_of (settings profile_no_settings) = None"
  by (simp_all add: profile_work_def profile_no_settings_def content_of_def)

lemma example_paths_cancel:
  "globalState host_paths_cancel ''settingsPath'' = Some ''/user/settings.json''"
  "globalState host_paths_cancel ''keybindingsPath'' = Some ''/user/keybindings.json''"
  "readonly host_paths_cancel = {}" "trace host_paths_cancel = []"
  "files host_paths_cancel ''/user/settings.json'' = None"
  "getExtensions host_paths_cancel = [''A'', ''B'', ''C'']"
  "confirmBeforeSync host_paths_cancel = None"
  "warningAnswer host_paths_cancel = Some ''Cancel''"
  by (simp_all add: host_paths_cancel_def example_paths)

text \<open>
  C2, as the code has it. \<^verbatim>\<open>updateLocalProfile\<close> runs its three steps in order and stops at the
  first write that fails: the failure is logged with the path of the file and thrown to the
  caller. When the settings write fails (the path or the content is \<^verbatim>\<open>undefined\<close>, or the file
  cannot be written), nothing else is attempted and no file changes. When the settings file
  is written and the keybindings write fails, the settings file stays written and the
  extensions are not reconciled. When both files are written, the settings file first, the
  extensions are reconciled last, on the host the two writes leave.
\<close>

theorem updateLocalProfile_stops_at_first_failed_write:
  "(fst (writeConfigFile (globalState w ''settingsPath'') (settings p) w) = Inl e \<longrightarrow>
      fst (updateLocalProfile p w) = Inl e
      \<and> files (snd (updateLocalProfile p w)) = files w
      \<and> trace (snd (updateLocalProfile p w)) =
          trace w @ write_call (globalState w ''settingsPath'') (settings p)
            @ [LoggerError (''Failed to write settings file: '' @ template (globalState w ''settingsPath''))
                 ''SyncEverything.writeConfigFile'' True])
   \<and> (globalState w ''settingsPath'' = Some sp \<and> content_of (settings p) = Some cs
      \<and> sp \<notin> readonly w
      \<and> fst (writeConfigFile (globalState w ''keybindingsPath'') (keybindings p) w) = Inl e \<longrightarrow>
      fst (updateLocalProfile p w) = Inl e
      \<and> files (snd (updateLocalProfile p w)) = (files w)(sp \<mapsto> cs)
      \<and> trace (snd (updateLocalProfile p w)) =
          trace w @ [FsWriteFile sp cs, LoggerInfo (''Configuration file updated: '' @ sp)]
            @ write_call (globalState w ''keybindingsPath'') (keybindings p)
            @ [LoggerError (''Failed to write settings file: '' @ template (globalState w ''keybindingsPath''))
                 ''SyncEverything.writeConfigFile'' True])
   \<and> (globalState w ''settingsPath'' = Some sp \<and> content_of (settings p) = Some cs
      \<and> sp \<notin> readonly w
      \<and> globalState w ''keybindingsPath'' = Some kp \<and> content_of (keybindings p) = Some ck
      \<and> kp \<notin> readonly w \<longrightarrow>
      updateLocalProfile p w =
        (Inr (), installExtensions (extensions p)
           (w\<lparr>files := (files w)(sp \<mapsto> cs, kp \<mapsto> ck),
              trace := trace w @ [FsWriteFile sp cs,
                                  LoggerInfo (''Configuration file updated: '' @ sp),
                                  FsWriteFile kp ck,
                                  LoggerInfo (''Configuration file updated: '' @ kp)]\<rparr>)))"
proof (intro conjI impI)
  assume f: "fst (writeConfigFile (globalState w ''settingsPath'') (settings p) w) = Inl e"
  then have run: "updateLocalProfile p w = writeConfigFile (globalState w ''settingsPath'') (settings p) w"
    by (cases "writeConfigFile (globalState w ''settingsPath'') (settings p) w")
       (simp add: updateLocalProfile_def)
  show "fst (updateLocalProfile p w) = Inl e"
    by (simp add: run f)
  show "files (snd (updateLocalProfile p w)) = files w"
    unfolding run using f by (rule writeConfigFile_failure(1))
  show "trace (snd (updateLocalProfile p w)) =
          trace w @ write_call (globalState w ''settingsPath'') (settings p)
            @ [LoggerError (''Failed to write settings file: '' @ template (globalState w ''settingsPath''))
                 ''SyncEverything.writeConfigFile'' True]"
    unfolding run using f by (rule writeConfigFile_failure(2))
next
  assume h: "globalState w ''settingsPath'' = Some sp \<and> content_of (settings p) = Some cs
      \<and> sp \<notin> readonly w
      \<and> fst (writeConfigFile (globalState w ''keybindingsPath'') (keybindings p) w) = Inl e"
  define w1 where "w1 = w\<lparr>files := (files w)(sp \<mapsto> cs),
      trace := trace w @ [FsWriteFile sp cs, LoggerInfo (''Configuration file updated: '' @ sp)]\<rparr>"
  have first: "writeConfigFile (globalState w ''settingsPath'') (settings p) w = (Inr (), w1)"
    unfolding w1_def using h by (intro writeConfigFile_success) simp_all
  have same: "globalState w1 ''keybindingsPath'' = globalState w ''keybindingsPath''"
      "readonly w1 = readonly w"
    by (simp_all add: w1_def)
  have f: "fst (writeConfigFile (globalState w1 ''keybindingsPath'') (keybindings p) w1) = Inl e"
    using h writeConfigFile_outcome_stable [OF same(2)] by (simp add: same(1))
  have run: "updateLocalProfile p w
      = writeConfigFile (globalState w1 ''keybindingsPath'') (keybindings p) w1"
    using f
    by (cases "writeConfigFile (globalState w1 ''keybindingsPath'') (keybindings p) w1")
       (simp add: updateLocalProfile_def first)
  show "fst (updateLocalProfile p w) = Inl e"
    by (simp add: run f)
  show "files (snd (updateLocalProfile p w)) = (files w)(sp \<mapsto> cs)"
    unfolding run using writeConfigFile_failure(1) [OF f] by (simp add: w1_def)
  show "trace (snd (updateLocalProfile p w)) =
          trace w @ [FsWriteFile sp cs, LoggerInfo (''Configuration file updated: '' @ sp)]
            @ write_call (globalState w ''keybindingsPath'') (keybindings p)
            @ [LoggerError (''Failed to write settings file: '' @ template (globalState w ''keybindingsPath''))
                 ''SyncEverything.writeConfigFile'' True]"
    unfolding run using writeConfigFile_failure(2) [OF f] by (simp add: w1_def)
next
  assume "globalState w ''settingsPath'' = Some sp \<and> content_of (settings p) = Some cs
      \<and> sp \<notin> readonly w
      \<and> globalState w ''keybindingsPath'' = Some kp \<and> content_of (keybindings p) = Some ck
      \<and> kp \<notin> readonly w"
  then show "updateLocalProfile p w =
        (Inr (), installExtensions (extensions p)
           (w\<lparr>files := (files w)(sp \<mapsto> cs, kp \<mapsto> ck),
              trace := trace w @ [FsWriteFile sp cs,
                                  LoggerInfo (''Configuration file updated: '' @ sp),
                                  FsWriteFile kp ck,
                                  LoggerInfo (''Configuration file updated: '' @ kp)]\<rparr>))"
    by (intro updateLocalProfile_all_written) simp_all
qed

theorem updateLocalProfile_stops_at_first_failed_write_witness:
  "fst (writeConfigFile (globalState host_readonly_settings ''settingsPath'')
          (settings profile_work) host_readonly_settings) = Inl (FileSystemError ''/user/settings.json'')
   \<and> fst (updateLocalProfile profile_work host_readonly_settings) = Inl (FileSystemError ''/user/settings.json'')
   \<and> fst (writeConfigFile (globalState host_paths ''settingsPath'')
          (settings profile_no_settings) host_paths) = Inl (TypeError ''content'')
   \<and> fst (updateLocalProfile profile_no_settings host_paths) = Inl (TypeError ''content'')
   \<and> trace (snd (updateLocalProfile profile_no_settings host_paths)) =
       [LoggerError ''Failed to write settings file: /user/settings.json''
          ''SyncEverything.writeConfigFile'' True]
   \<and> globalState host_readonly_keybindings ''settingsPath'' = Some ''/user/settings.json''
   \<and> content_of (settings profile_work) = Some ''{}''
   \<and> ''/user/settings.json'' \<notin> readonly host_readonly_keybindings
   \<and> fst (writeConfigFile (globalState host_readonly_keybindings ''keybindingsPath'')
          (keybindings profile_work) host_readonly_keybindings) = Inl (FileSystemError ''/user/keybindings.json'')
   \<and> fst (updateLocalProfile profile_work host_readonly_keybindings) = Inl (FileSystemError ''/user/keybindings.json'')
   \<and> trace (snd (updateLocalProfile profile_work host_readonly_keybindings)) =
       [FsWriteFile ''/user/settings.json'' ''{}'',
        LoggerInfo ''Configuration file updated: /user/settings.json'',
        FsWriteFile ''/user/keybindings.json'' ''[]'',
        LoggerError ''Failed to write settings file: /user/keybindings.json''
          ''SyncEverything.writeConfigFile'' True]
   \<and> globalState host_paths ''keybindingsPath'' = Some ''/user/keybindings.json''
   \<and> content_of (keybindings profile_work) = Some ''[]''
   \<and> ''/user/keybindings.json'' \<notin> readonly host_paths
   \<and> fst (updateLocalProfile profile_work host_paths) = Inr ()
   \<and> trace (snd (updateLocalProfile profile_work host_paths)) =
       [FsWriteFile ''/user/settings.json'' ''{}'',
        LoggerInfo ''Configuration file updated: /user/settings.json'',
        FsWriteFile ''/user/keybindings.json'' ''[]'',
        LoggerInfo ''Configuration file updated: /user/keybindings.json'',
        ProgressReport ''Uninstalling A...'' 1 2,
        ExecuteCommand uninstallExtension (Some ''A''),
        LoggerInfo ''Uninstalled extension: A'',
        ProgressReport ''Installing D...'' 2 2,
        ExecuteCommand installExtension (Some ''D''),
        LoggerInfo ''Installed extension: D'',
        InformationMessage ''Extension sync complete. Reload window to apply all changes?'']"
proof -
  have rs: "globalState host_readonly_settings ''settingsPath'' = Some ''/user/settings.json''"
      "readonly host_readonly_settings = {''/user/settings.json''}"
      "trace host_readonly_settings = []"
    by (simp_all add: host_readonly_settings_def example_paths)
  have rk: "globalState host_readonly_keybindings ''settingsPath'' = Some ''/user/settings.json''"
      "globalState host_readonly_keybindings ''keybindingsPath'' = Some ''/user/keybindings.json''"
      "readonly host_readonly_keybindings = {''/user/keybindings.json''}"
      "trace host_readonly_keybindings = []"
    by (simp_all add: host_readonly_keybindings_def example_paths)
  have f1: "fst (writeConfigFile (globalState host_readonly_settings ''settingsPath'')
          (settings profile_work) host_readonly_settings) = Inl (FileSystemError ''/user/settings.json'')"
    by (simp add: writeConfigFile_def rs example_contents Let_def)
  have f2: "fst (writeConfigFile (globalState host_paths ''settingsPath'')
          (settings profile_no_settings) host_paths) = Inl (TypeError ''content'')"
    by (simp add: writeConfigFile_def example_paths example_contents Let_def)
  have f3: "fst (writeConfigFile (globalState host_readonly_keybindings ''keybindingsPath'')
          (keybindings profile_work) host_readonly_keybindings) = Inl (FileSystemError ''/user/keybindings.json'')"
    by (simp add: writeConfigFile_def rk example_contents Let_def)
  have a: "fst (updateLocalProfile profile_work host_readonly_settings) = Inl (FileSystemError ''/user/settings.json'')"
    using updateLocalProfile_stops_at_first_failed_write
            [where w = host_readonly_settings and p = profile_work
               and e = "FileSystemError ''/user/settings.json''"] f1
    by blast
  have b: "fst (updateLocalProfile profile_no_settings host_paths) = Inl (TypeError ''content'')
      \<and> trace (snd (updateLocalProfile profile_no_settings host_paths)) =
       [LoggerError ''Failed to write settings file: /user/settings.json''
          ''SyncEverything.writeConfigFile'' True]"
    using updateLocalProfile_stops_at_first_failed_write
            [where w = host_paths and p = profile_no_settings and e = "TypeError ''content''"] f2
    by (simp add: example_paths example_contents write_call_def template_def)
  have c: "fst (updateLocalProfile profile_work host_readonly_keybindings) = Inl (FileSystemError ''/user/keybindings.json'')
      \<and> trace (snd (updateLocalProfile profile_work host_readonly_keybindings)) =
       [FsWriteFile ''/user/settings.json'' ''{}'',
        LoggerInfo ''Configuration file updated: /user/settings.json'',
        FsWriteFile ''/user/keybindings.json'' ''[]'',
        LoggerError ''Failed to write settings file: /user/keybindings.json''
          ''SyncEverything.writeConfigFile'' True]"
    using updateLocalProfile_stops_at_first_failed_write
            [where w = host_readonly_keybindings and p = profile_work
               and sp = "''/user/settings.json''" and cs = "''{}''"
               and e = "FileSystemError ''/user/keybindings.json''"] f3
    by (simp add: rk example_contents write_call_def template_def)
  have d0: "updateLocalProfile profile_work host_paths =
      (Inr (), installExtensions [''B'', ''C'', ''D'']
         (host_paths\<lparr>files := (files host_paths)(''/user/settings.json'' \<mapsto> ''{}'',
                                                    ''/user/keybindings.json'' \<mapsto> ''[]''),
                      trace := [FsWriteFile ''/user/settings.json'' ''{}'',
                                LoggerInfo ''Configuration file updated: /user/settings.json'',
                                FsWriteFile ''/user/keybindings.json'' ''[]'',
                                LoggerInfo ''Configuration file updated: /user/keybindings.json'']\<rparr>))"
    using updateLocalProfile_stops_at_first_failed_write
            [where w = host_paths and p = profile_work
               and sp = "''/user/settings.json''" and cs = "''{}''"
               and kp = "''/user/keybindings.json''" and ck = "''[]''"]
    by (simp add: example_paths example_contents)
  have d: "fst (updateLocalProfile profile_work host_paths) = Inr ()
      \<and> trace (snd (updateLocalProfile profile_work host_paths)) =
       [FsWriteFile ''/user/settings.json'' ''{}'',
        LoggerInfo ''Configuration file updated: /user/settings.json'',
        FsWriteFile ''/user/keybindings.json'' ''[]'',
        LoggerInfo ''Configuration file updated: /user/keybindings.json'',
        ProgressReport ''Uninstalling A...'' 1 2,
        ExecuteCommand uninstallExtension (Some ''A''),
        LoggerInfo ''Uninstalled extension: A'',
        ProgressReport ''Installing D...'' 2 2,
        ExecuteCommand installExtension (Some ''D''),
        LoggerInfo ''Installed extension: D'',
        InformationMessage ''Extension sync complete. Reload window to apply all changes?'']"
    unfolding d0
    by (simp add: installExtensions_def run_batch_def getExtensions_def toInstall_def toDelete_def
          Let_def host_paths_def host_abc_def user_extension_def)
  show ?thesis
    using f1 f2 f3 a b c d rk(1,3) example_paths(2,3) example_contents(1,2) by simp
qed

text \<open>
  C2, as the claim has it, fails: with a settings file that cannot be written, the run ends
  after the one write attempt and its log entry. The keybindings file is never written to,
  and no prompt, message or command of the reconciliation appears.
\<close>

theorem settings_failure_blocks_other_steps:
  "fst (writeConfigFile (globalState host_readonly_settings ''settingsPath'')
          (settings profile_work) host_readonly_settings) = Inl (FileSystemError ''/user/settings.json'')
   \<and> fst (updateLocalProfile profile_work host_readonly_settings) = Inl (FileSystemError ''/user/settings.json'')
   \<and> trace (snd (updateLocalProfile profile_work host_readonly_settings)) =
       [FsWriteFile ''/user/settings.json'' ''{}'',
        LoggerError ''Failed to write settings file: /user/settings.json''
          ''SyncEverything.writeConfigFile'' True]"
  by (simp add: updateLocalProfile_def writeConfigFile_def Let_def template_def
        host_readonly_settings_def host_paths_def host_abc_def profile_work_def content_of_def)

text \<open>
  C7, as the code has it. When the two lists differ, confirmation is required (the setting is
  unset or true) and the user neither picks "Yes" nor "Show Details" (picks "Cancel" or
  dismisses the prompt), \<^verbatim>\<open>installExtensions\<close> does nothing beyond showing the prompt: no
  install and no uninstall command is issued. The prompt stands between the user and the
  extension changes only: in \<^verbatim>\<open>updateLocalProfile\<close>, the one caller, both configuration files
  have been overwritten before the prompt is shown, and they stay overwritten.
\<close>

theorem decline_stops_extension_changes_only:
  assumes "\<not> (toInstall (getExtensions w) R = [] \<and> toDelete (getExtensions w) R = [])"
    and "confirmBeforeSync w \<noteq> Some False"
    and "warningAnswer w \<noteq> Some ''Yes''"
    and "warningAnswer w \<noteq> Some ''Show Details''"
  shows "installExtensions R w =
           emit (WarningMessage (length (toInstall (getExtensions w) R))
                                (length (toDelete (getExtensions w) R))) w
         \<and> mutations (trace (installExtensions R w)) = mutations (trace w)
         \<and> (extensions p = R
            \<and> globalState w ''settingsPath'' = Some sp \<and> content_of (settings p) = Some cs
            \<and> sp \<notin> readonly w
            \<and> globalState w ''keybindingsPath'' = Some kp \<and> content_of (keybindings p) = Some ck
            \<and> kp \<notin> readonly w \<longrightarrow>
            updateLocalProfile p w =
              (Inr (), w\<lparr>files := (files w)(sp \<mapsto> cs, kp \<mapsto> ck),
                         trace := trace w @
                           [FsWriteFile sp cs,
                            LoggerInfo (''Configuration file updated: '' @ sp),
                            FsWriteFile kp ck,
                            LoggerInfo (''Configuration file updated: '' @ kp),
                            WarningMessage (length (toInstall (getExtensions w) R))
                                           (length (toDelete (getExtensions w) R))]\<rparr>))"
proof (intro conjI impI)
  show batch: "installExtensions R w =
           emit (WarningMessage (length (toInstall (getExtensions w) R))
                                (length (toDelete (getExtensions w) R))) w"
    using assms by (rule installExtensions_declined)
  show "mutations (trace (installExtensions R w)) = mutations (trace w)"
    by (simp add: batch mutations_def)
next
  assume h: "extensions p = R
            \<and> globalState w ''settingsPath'' = Some sp \<and> content_of (settings p) = Some cs
            \<and> sp \<notin> readonly w
            \<and> globalState w ''keybindingsPath'' = Some kp \<and> content_of (keybindings p) = Some ck
            \<and> kp \<notin> readonly w"
  define w2 where "w2 = w\<lparr>files := (files w)(sp \<mapsto> cs, kp \<mapsto> ck),
      trace := trace w @ [FsWriteFile sp cs, LoggerInfo (''Configuration file updated: '' @ sp),
                          FsWriteFile kp ck, LoggerInfo (''Configuration file updated: '' @ kp)]\<rparr>"
  have written: "updateLocalProfile p w = (Inr (), installExtensions R w2)"
    unfolding w2_def using h updateLocalProfile_all_written [of w sp p cs kp ck] by simp
  have same: "getExtensions w2 = getExtensions w" "confirmBeforeSync w2 = confirmBeforeSync w"
      "warningAnswer w2 = warningAnswer w"
    by (simp_all add: w2_def)
  have "installExtensions R w2 =
           emit (WarningMessage (length (toInstall (getExtensions w2) R))
                                (length (toDelete (getExtensions w2) R))) w2"
    using assms by (intro installExtensions_declined) (simp_all add: same)
  then show "updateLocalProfile p w =
              (Inr (), w\<lparr>files := (files w)(sp \<mapsto> cs, kp \<mapsto> ck),
                         trace := trace w @
                           [FsWriteFile sp cs,
                            LoggerInfo (''Configuration file updated: '' @ sp),
                            FsWriteFile kp ck,
                            LoggerInfo (''Configuration file updated: '' @ kp),
                            WarningMessage (length (toInstall (getExtensions w) R))
                                           (length (toDelete (getExtensions w) R))]\<rparr>)"
    by (simp add: written same) (simp add: w2_def emit_def)
qed

theorem decline_stops_extension_changes_only_witness:
  "toInstall (getExtensions host_paths_cancel) [''B'', ''C'', ''D''] = [''D'']
   \<and> toDelete (getExtensions host_paths_cancel) [''B'', ''C'', ''D''] = [''A'']
   \<and> confirmBeforeSync host_paths_cancel = None
   \<and> warningAnswer host_paths_cancel = Some ''Cancel''
   \<and> trace (installExtensions [''B'', ''C'', ''D''] host_paths_cancel) = [WarningMessage 1 1]
   \<and> extensions profile_work = [''B'', ''C'', ''D'']
   \<and> fst (updateLocalProfile profile_work host_paths_cancel) = Inr ()
   \<and> trace (snd (updateLocalProfile profile_work host_paths_cancel)) =
       [FsWriteFile ''/user/settings.json'' ''{}'',
        LoggerInfo ''Configuration file updated: /user/settings.json'',
        FsWriteFile ''/user/keybindings.json'' ''[]'',
        LoggerInfo ''Configuration file updated: /user/keybindings.json'',
        WarningMessage 1 1]"
proof -
  have i: "toInstall (getExtensions host_paths_cancel) [''B'', ''C'', ''D''] = [''D'']"
    and d: "toDelete (getExtensions host_paths_cancel) [''B'', ''C'', ''D''] = [''A'']"
    by (simp_all add: example_paths_cancel toInstall_def toDelete_def)
  have n: "\<not> (toInstall (getExtensions host_paths_cancel) [''B'', ''C'', ''D''] = []
      \<and> toDelete (getExtensions host_paths_cancel) [''B'', ''C'', ''D''] = [])"
    by (simp add: i)
  have c: "confirmBeforeSync host_paths_cancel \<noteq> Some False"
      "warningAnswer host_paths_cancel \<noteq> Some ''Yes''"
      "warningAnswer host_paths_cancel \<noteq> Some ''Show Details''"
    by (simp_all add: example_paths_cancel)
  note T = decline_stops_extension_changes_only
         [OF n c, where p = profile_work and sp = "''/user/settings.json''" and cs = "''{}''"
            and kp = "''/user/keybindings.json''" and ck = "''[]''"]
  have batch: "trace (installExtensions [''B'', ''C'', ''D''] host_paths_cancel) = [WarningMessage 1 1]"
    using T by (simp add: i d example_paths_cancel(4))
  have run: "fst (updateLocalProfile profile_work host_paths_cancel) = Inr ()
      \<and> trace (snd (updateLocalProfile profile_work host_paths_cancel)) =
       [FsWriteFile ''/user/settings.json'' ''{}'',
        LoggerInfo ''Configuration file updated: /user/settings.json'',
        FsWriteFile ''/user/keybindings.json'' ''[]'',
        LoggerInfo ''Configuration file updated: /user/keybindings.json'',
        WarningMessage 1 1]"
    using T by (simp add: i d example_paths_cancel(1,2,3,4) example_contents)
  show ?thesis
    using i d batch run example_paths_cancel(7,8) example_contents(3) by simp
qed

text \<open>
  C7, as the claim has it, fails: the user declines at the prompt, and the settings file,
  which did not exist before, has been written.
\<close>

theorem decline_leaves_files_overwritten:
  "confirmBeforeSync host_paths_cancel = None
   \<and> warningAnswer host_paths_cancel = Some ''Cancel''
   \<and> files host_paths_cancel ''/user/settings.json'' = None
   \<and> fst (updateLocalProfile profile_work host_paths_cancel) = Inr ()
   \<and> trace (snd (updateLocalProfile profile_work host_paths_cancel)) =
       [FsWriteFile ''/user/settings.json'' ''{}'',
        LoggerInfo ''Configuration file updated: /user/settings.json'',
        FsWriteFile ''/user/keybindings.json'' ''[]'',
        LoggerInfo ''Configuration file updated: /user/keybindings.json'',
        WarningMessage 1 1]
   \<and> files (snd (updateLocalProfile profile_work host_paths_cancel)) ''/user/settings.json''
       = Some ''{}''"
  by (simp add: updateLocalProfile_def writeConfigFile_def installExtensions_def getExtensions_def
        toInstall_def toDelete_def Let_def host_paths_cancel_def host_paths_def host_abc_def
        user_extension_def profile_work_def content_of_def)

section \<open>Claims about GistService\<close>

lemma route_item [simp]: "route (baseUrl @ CHR ''/'' # i) = Item i"
  by (simp add: route_def baseUrl_def)

lemma route_base [simp]: "route baseUrl = Collection"
  by (simp add: route_def)

lemma sent_fields [simp]:
  "gists (sent r g) = gists g" "outage (sent r g) = outage g"
  "requests (sent r g) = requests g @ [r]" "logged (sent r g) = logged g"
  by (simp_all add: sent_def)

lemma map_of_remove_file:
  "map_of (remove_file n fs) k = (if k = n then None else map_of fs k)"
  by (induction fs) (auto simp: remove_file_def)

lemma find_patched:
  "find (\<lambda>x. gist_id x = i) (map (\<lambda>y. if gist_id y = i then y\<lparr>gist_files := f (gist_files y)\<rparr> else y) xs)
     = map_option (\<lambda>y. y\<lparr>gist_files := f (gist_files y)\<rparr>) (find (\<lambda>x. gist_id x = i) xs)"
  by (induction xs) simp_all

text \<open>
  With no cached id (or an empty one) the collection is scanned: the first record with the
  description is returned and its id is cached.
\<close>

lemma getMaster_scans_without_id:
  assumes "masterId svc = None \<or> masterId svc = Some []" and "outage g = None"
    and "find (\<lambda>x. gist_description x = description) (gists g) = Some m"
  shows "getMaster svc g = (Inr (Some m), svc\<lparr>masterId := Some (gist_id m)\<rparr>, sent (Get baseUrl) g)"
  using assms
  by (auto simp: getMaster_def getCollection_def axios_get_collection_def Let_def)

text \<open>
  A cached id that is set and names no record of the store: \<^verbatim>\<open>getMaster\<close> sends the one
  request by id and throws what \<^verbatim>\<open>getGist\<close> throws. The collection is not fetched and the
  cached id stays.
\<close>

lemma getMaster_throws_on_stale_id:
  assumes "masterId svc = Some i" "i \<noteq> []" "outage g = None"
    and "find (\<lambda>x. gist_id x = i) (gists g) = None"
  shows "fst (getMaster svc g) =
           Inl (Error (''Resource not found during fetch gist '' @ i @ ''. The gist may have been deleted.''))
         \<and> fst (snd (getMaster svc g)) = svc
         \<and> requests (snd (snd (getMaster svc g))) = requests g @ [Get (baseUrl @ ''/'' @ i)]"
  using assms
  by (simp add: getMaster_def getGist_def axios_get_gist_def handleGistError_def not_found_def Let_def)

text \<open>
  C1. The claim is that with a stale cached id and a record with the sentinel description in
  the collection, \<^verbatim>\<open>getMaster\<close> falls back to the scan, returns that record and updates the
  cached id. Here the cached id is \<^verbatim>\<open>stale\<close> and the collection holds the master record:
  the only request sent is the one by id, the 404 is thrown as an error, and the cached id is
  unchanged.
\<close>

theorem stale_master_id_is_thrown:
  "getMaster \<lparr>masterId = Some ''stale''\<rparr> store =
     (Inl (Error ''Resource not found during fetch gist stale. The gist may have been deleted.''),
      \<lparr>masterId = Some ''stale''\<rparr>,
      store\<lparr>requests := [Get ''https://api.github.com/gists/stale''],
            logged := [DebugObject ''GistService.getGist'',
                       ErrorEntry ''Resource not found during fetch gist stale. The gist may have been deleted.''
                         ''GistService.getGist'' True]\<rparr>)
   \<and> find (\<lambda>x. gist_description x = description) (gists store) = Some master_record"
  by (simp add: getMaster_def getGist_def axios_get_gist_def handleGistError_def not_found_def
        store_def master_record_def other_record_def description_def Let_def
        route_def baseUrl_def sent_def)

text \<open>
  C3, as the code has it. With no master id established, \<^verbatim>\<open>createProfile\<close> makes no check of
  its own: it sends one PATCH request to \<^verbatim>\<open><baseUrl>/undefined\<close> with the profile's file entry.
  What the caller gets is the store's answer; a store with no record of that id answers 404,
  which is thrown as the remote error "Resource not found during update/create profile ...",
  and no record is changed.
\<close>

theorem createProfile_without_master_id:
  assumes "masterId svc = None"
  shows "requests (snd (createProfile stringify p svc g)) =
           requests g @ [Patch (baseUrl @ ''/undefined'') [(profileName p @ ''.json'', stringify p)]]
         \<and> (outage g = None \<and> find (\<lambda>x. gist_id x = ''undefined'') (gists g) = None \<longrightarrow>
              fst (createProfile stringify p svc g) =
                Inl (Error (''Resource not found during update/create profile '' @ profileName p
                            @ ''. The gist may have been deleted.''))
              \<and> gists (snd (createProfile stringify p svc g)) = gists g)"
proof -
  have u: "baseUrl @ ''/'' @ template (masterId svc) = baseUrl @ ''/undefined''"
    using assms by (simp add: template_def)
  have r: "route (baseUrl @ ''/undefined'') = Item ''undefined''"
    by simp
  show ?thesis
    unfolding createProfile_def u
    by (simp add: axios_patch_def handleGistError_def not_found_def Let_def r
          split: option.splits prod.splits sum.splits)
qed

theorem createProfile_without_master_id_witness:
  "masterId \<lparr>masterId = None\<rparr> = None
   \<and> outage store = None
   \<and> find (\<lambda>x. gist_id x = ''undefined'') (gists store) = None
   \<and> requests (snd (createProfile sample_json profile_work \<lparr>masterId = None\<rparr> store)) =
       [Patch (baseUrl @ ''/undefined'') [(''Work.json'', ''{ profileName: Work }'')]]
   \<and> fst (createProfile sample_json profile_work \<lparr>masterId = None\<rparr> store) =
       Inl (Error ''Resource not found during update/create profile Work. The gist may have been deleted.'')
   \<and> gists (snd (createProfile sample_json profile_work \<lparr>masterId = None\<rparr> store)) = gists store"
proof -
  have a: "masterId \<lparr>masterId = None\<rparr> = None"
    by simp
  have b: "outage store = None" "requests store = []"
      "find (\<lambda>x. gist_id x = ''undefined'') (gists store) = None"
    by (simp_all add: store_def master_record_def other_record_def)
  have c: "profileName profile_work = ''Work''" "sample_json profile_work = ''{ profileName: Work }''"
    by (simp_all add: profile_work_def sample_json_def)
  from createProfile_without_master_id [OF a, of sample_json profile_work store] a b c
  show ?thesis by simp
qed

text \<open>
  C3, as the claim has it, fails: with no master id a request is sent, and the error the
  caller sees is made from the store's response.
\<close>

theorem createProfile_without_master_id_is_sent:
  "requests (snd (createProfile sample_json profile_work \<lparr>masterId = None\<rparr> store)) \<noteq> requests store
   \<and> requests (snd (createProfile sample_json profile_work \<lparr>masterId = None\<rparr> store)) =
       [Patch ''https://api.github.com/gists/undefined''
          [(''Work.json'', ''{ profileName: Work }'')]]
   \<and> fst (createProfile sample_json profile_work \<lparr>masterId = None\<rparr> store) =
       Inl (Error ''Resource not found during update/create profile Work. The gist may have been deleted.'')"
  by (simp add: createProfile_def axios_patch_def handleGistError_def not_found_def template_def
        store_def master_record_def other_record_def profile_work_def sample_json_def Let_def baseUrl_def route_def sent_def)

text \<open>
  C8. With the cached master id naming a record of the store, and the store reachable,
  \<^verbatim>\<open>deleteProfile name\<close> sends one PATCH for that record whose only file entry is
  \<^verbatim>\<open>name.json\<close> with empty content. Afterwards the master record has no \<^verbatim>\<open>name.json\<close> entry,
  every other file entry of it reads as before, and every other record is unchanged.
\<close>

theorem deleteProfile_removes_named_file_only:
  assumes "masterId svc = Some i" and "outage g = None"
    and "find (\<lambda>x. gist_id x = i) (gists g) = Some m"
  shows "fst (deleteProfile name svc g) = Inr ()
     \<and> requests (snd (deleteProfile name svc g)) =
         requests g @ [Patch (baseUrl @ ''/'' @ i) [(name @ ''.json'', [])]]
     \<and> gists (snd (deleteProfile name svc g)) =
         map (\<lambda>y. if gist_id y = i
                   then y\<lparr>gist_files := remove_file (name @ ''.json'') (gist_files y)\<rparr>
                   else y) (gists g)
     \<and> find (\<lambda>x. gist_id x = i) (gists (snd (deleteProfile name svc g))) =
         Some (m\<lparr>gist_files := remove_file (name @ ''.json'') (gist_files m)\<rparr>)
     \<and> map_of (remove_file (name @ ''.json'') (gist_files m)) (name @ ''.json'') = None
     \<and> (\<forall>k. k \<noteq> name @ ''.json'' \<longrightarrow>
           map_of (remove_file (name @ ''.json'') (gist_files m)) k = map_of (gist_files m) k)"
proof -
  have u: "template (masterId svc) = i"
    using assms(1) by (simp add: template_def)
  have d: "deleteProfile name svc g =
      (Inr (), (sent (Patch (baseUrl @ ''/'' @ i) [(name @ ''.json'', [])]) g)
                 \<lparr>gists := map (\<lambda>y. if gist_id y = i
                   then y\<lparr>gist_files := remove_file (name @ ''.json'') (gist_files y)\<rparr>
                   else y) (gists g)\<rparr>)"
    unfolding deleteProfile_def u using assms(2,3)
    by (simp add: axios_patch_def Let_def)
  have f: "find (\<lambda>x. gist_id x = i) (map (\<lambda>y. if gist_id y = i
                   then y\<lparr>gist_files := remove_file (name @ ''.json'') (gist_files y)\<rparr>
                   else y) (gists g))
        = Some (m\<lparr>gist_files := remove_file (name @ ''.json'') (gist_files m)\<rparr>)"
    using find_patched [of i "remove_file (name @ ''.json'')" "gists g"] assms(3) by simp
  show ?thesis
    using f by (simp add: d map_of_remove_file)
qed

theorem deleteProfile_removes_named_file_only_witness:
  "masterId \<lparr>masterId = Some ''m1''\<rparr> = Some ''m1''
   \<and> outage store = None
   \<and> find (\<lambda>x. gist_id x = ''m1'') (gists store) = Some master_record
   \<and> fst (deleteProfile ''Work'' \<lparr>masterId = Some ''m1''\<rparr> store) = Inr ()
   \<and> gists (snd (deleteProfile ''Work'' \<lparr>masterId = Some ''m1''\<rparr> store)) =
       [other_record, master_record\<lparr>gist_files := [(''Origin.json'', ''{ profileName: Origin }'')]\<rparr>]"
proof -
  have a: "masterId \<lparr>masterId = Some ''m1''\<rparr> = Some ''m1''"
    by simp
  have b: "outage store = None"
    by (simp add: store_def)
  have c: "find (\<lambda>x. gist_id x = ''m1'') (gists store) = Some master_record"
    by (simp add: store_def master_record_def other_record_def)
  have g: "gists store = [other_record, master_record]"
    by (simp add: store_def)
  have i: "gist_id other_record \<noteq> ''m1''" "gist_id master_record = ''m1''"
    by (simp_all add: master_record_def other_record_def)
  have r: "remove_file ''Work.json'' (gist_files master_record) = [(''Origin.json'', ''{ profileName: Origin }'')]"
    by (simp add: remove_file_def master_record_def)
  from deleteProfile_removes_named_file_only [OF a b c, of "''Work''"] a b c g i r
  show ?thesis by simp
qed

end
